theory Spec2Isabelle
  imports Complex_Main "HOL-Library.Word"
begin

section \<open>Python numbers\<close>

text \<open>
  A finite Python float is modelled by the rational it denotes. Every arithmetic
  operation computes the exact result and rounds it to the nearest binary64 value
  (53 significant bits, ties to even); overflow and subnormal results are outside the
  range of the values this program computes and are not modelled.
\<close>

type_synonym pyfloat = rat

text \<open>The exceptions a run can meet, with their messages where they carry one.\<close>

datatype py_error = ZeroDivisionError | ValueError string | OSError string

text \<open>Python 3 \<open>round(x)\<close> on a float: nearest integer, ties to the even one.\<close>

definition py_round :: "rat \<Rightarrow> int" where
  "py_round x =
     (let f = \<lfloor>x\<rfloor>; d = x - of_int f
      in if d < 1 / 2 then f
         else if 1 / 2 < d then f + 1
         else if even f then f else f + 1)"

fun bit_length :: "nat \<Rightarrow> nat" where
  "bit_length n = (if n = 0 then 0 else Suc (bit_length (n div 2)))"

declare bit_length.simps [simp del]

definition pow2 :: "int \<Rightarrow> rat" where
  "pow2 s = (if 0 \<le> s then 2 ^ nat s else 1 / 2 ^ nat (- s))"

text \<open>The binary exponent \<open>e\<close> of a non-zero value: \<open>2^e \<le> |x| < 2^(e+1)\<close>.\<close>

definition exponent :: "rat \<Rightarrow> int" where
  "exponent x =
     (let ax = \<bar>x\<bar>
      in if 1 \<le> ax then int (bit_length (nat \<lfloor>ax\<rfloor>)) - 1
         else (let k = int (bit_length (nat \<lfloor>1 / ax\<rfloor>))
               in if ax * pow2 (k - 1) = 1 then - (k - 1) else - k))"

text \<open>Rounding an exact result to binary64.\<close>

definition fl :: "rat \<Rightarrow> pyfloat" where
  "fl x = (if x = 0 then 0
           else (let s = 52 - exponent x
                 in of_int (py_round (x * pow2 s)) * pow2 (- s)))"

definition float_of_int :: "int \<Rightarrow> pyfloat" where
  "float_of_int i = fl (of_int i)"

definition fadd :: "pyfloat \<Rightarrow> pyfloat \<Rightarrow> pyfloat" where
  "fadd x y = fl (x + y)"

definition fsub :: "pyfloat \<Rightarrow> pyfloat \<Rightarrow> pyfloat" where
  "fsub x y = fl (x - y)"

definition fmul :: "pyfloat \<Rightarrow> pyfloat \<Rightarrow> pyfloat" where
  "fmul x y = fl (x * y)"

definition fdiv :: "pyfloat \<Rightarrow> pyfloat \<Rightarrow> py_error + pyfloat" where
  "fdiv x y = (if y = 0 then Inl ZeroDivisionError else Inr (fl (x / y)))"

section \<open>Colour interpolation\<close>

type_synonym color = "int \<times> int \<times> int"
type_synonym rgba = "int \<times> int \<times> int \<times> int"

text \<open>
  \<open>interpolate(x, bc1, bc2)\<close>: the channels of \<open>bc1\<close> and \<open>bc2\<close> are Python ints,
  \<open>x\<close> is a float; an int operand of a mixed operation is converted to float first.
\<close>

definition interpolate_channel :: "pyfloat \<Rightarrow> int \<Rightarrow> int \<Rightarrow> int" where
  "interpolate_channel x c1 c2 =
     py_round (fadd (float_of_int c1) (fmul (float_of_int (c2 - c1)) x))"

definition interpolate :: "pyfloat \<Rightarrow> color \<Rightarrow> color \<Rightarrow> color" where
  "interpolate x bc1 bc2 =
     (case bc1 of (r1, g1, b1) \<Rightarrow> case bc2 of (r2, g2, b2) \<Rightarrow>
        (interpolate_channel x r1 r2, interpolate_channel x g1 g2, interpolate_channel x b1 b2))"

section \<open>The per-pixel compositor\<close>

definition bind_err :: "py_error + 'a \<Rightarrow> ('a \<Rightarrow> py_error + 'b) \<Rightarrow> py_error + 'b" where
  "bind_err m f = (case m of Inl e \<Rightarrow> Inl e | Inr v \<Rightarrow> f v)"

text \<open>
  The body of the pixel loop of \<open>composite_images\<close>. The intensities are read from 8-bit
  bands, so they are bytes. Each float division may raise \<open>ZeroDivisionError\<close>.
\<close>

definition composite_pixel :: "8 word \<Rightarrow> 8 word \<Rightarrow> color \<Rightarrow> color \<Rightarrow> py_error + rgba" where
  "composite_pixel r_val g_val bc1 bc2 =
     bind_err (fdiv (float_of_int (uint r_val)) 2) (\<lambda>b1.
     bind_err (fdiv (float_of_int (uint g_val)) 2) (\<lambda>h.
       let b2 = fadd h (255 / 2);
           a = fadd (fsub 255 b2) b1
       in bind_err (if 0 < a then fdiv b1 a else Inr 0) (\<lambda>b.
            let rgb_tuple = interpolate b bc1 bc2;
                final_alpha = py_round a;
                final_alpha = max 0 (min 255 final_alpha)
            in Inr (fst rgb_tuple, fst (snd rgb_tuple), snd (snd rgb_tuple), final_alpha))))"

text \<open>
  The algorithm as the specification words it, with the rounding policy \<open>rnd\<close> left open
  as the specification leaves it, and in the same float arithmetic.
\<close>

definition clamp :: "int \<Rightarrow> int \<Rightarrow> int \<Rightarrow> int" where
  "clamp v lo hi = (if v < lo then lo else if hi < v then hi else v)"

definition spec_lerp :: "(rat \<Rightarrow> int) \<Rightarrow> int \<Rightarrow> int \<Rightarrow> pyfloat \<Rightarrow> int" where
  "spec_lerp rnd c1 c2 t = rnd (fadd (float_of_int c1) (fmul (float_of_int (c2 - c1)) t))"

definition spec_pixel :: "(rat \<Rightarrow> int) \<Rightarrow> 8 word \<Rightarrow> 8 word \<Rightarrow> color \<Rightarrow> color \<Rightarrow> rgba" where
  "spec_pixel rnd r_val g_val bc1 bc2 =
     (let b1 = fl (float_of_int (uint r_val) / 2);
          b2 = fadd (fl (float_of_int (uint g_val) / 2)) (255 / 2);
          a = fadd (fsub 255 b2) b1;
          t = (if a \<le> 0 then 0 else fl (b1 / a))
      in (spec_lerp rnd (fst bc1) (fst bc2) t,
          spec_lerp rnd (fst (snd bc1)) (fst (snd bc2)) t,
          spec_lerp rnd (snd (snd bc1)) (snd (snd bc2)) t,
          clamp (rnd a) 0 255))"

section \<open>Images\<close>

text \<open>
  An image has a size and a pixel access object indexed by \<open>(x, y)\<close>, as
  \<open>Image.load()\<close> gives it. Only the pixels inside the size belong to the image.
\<close>

record 'a image =
  width :: nat
  height :: nat
  pixels :: "nat \<times> nat \<Rightarrow> 'a"

text \<open>\<open>Image.new(mode, (w, h), fill)\<close>.\<close>

definition new_image :: "nat \<Rightarrow> nat \<Rightarrow> 'a \<Rightarrow> 'a image" where
  "new_image w h fill = \<lparr>width = w, height = h, pixels = (\<lambda>_. fill)\<rparr>"

text \<open>
  \<open>dst.paste(src, (ox, oy))\<close> without a mask: the box of \<open>src\<close> placed at the offset is
  copied, clipped to \<open>dst\<close>.
\<close>

definition covered :: "'a image \<Rightarrow> 'b image \<Rightarrow> int \<times> int \<Rightarrow> nat \<times> nat \<Rightarrow> bool" where
  "covered dst src off p =
     (case off of (ox, oy) \<Rightarrow> case p of (x, y) \<Rightarrow>
        x < width dst \<and> y < height dst \<and>
        ox \<le> int x \<and> int x < ox + int (width src) \<and>
        oy \<le> int y \<and> int y < oy + int (height src))"

definition paste :: "'a image \<Rightarrow> 'a image \<Rightarrow> int \<times> int \<Rightarrow> 'a image" where
  "paste dst src off =
     dst\<lparr>pixels := (\<lambda>p. if covered dst src off p
                          then pixels src (nat (int (fst p) - fst off), nat (int (snd p) - snd off))
                          else pixels dst p)\<rparr>"

section \<open>The loader\<close>

type_synonym rgb8 = "8 word \<times> 8 word \<times> 8 word"

text \<open>
  A decoded source image, by Pillow mode: \<open>1\<close>, \<open>L\<close>, \<open>LA\<close>, \<open>RGB\<close>, \<open>RGBA\<close>, and \<open>P\<close>
  (a palette image without transparency, each pixel given by its palette colour).
\<close>

datatype source_image =
    Bilevel "bool image"
  | Gray "8 word image"
  | GrayAlpha "(8 word \<times> 8 word) image"
  | Rgb "rgb8 image"
  | Rgba "(rgb8 \<times> 8 word) image"
  | Palette "rgb8 image"

fun has_alpha :: "source_image \<Rightarrow> bool" where
  "has_alpha (GrayAlpha _) = True"
| "has_alpha (Rgba _) = True"
| "has_alpha _ = False"

definition map_image :: "('a \<Rightarrow> 'b) \<Rightarrow> 'a image \<Rightarrow> 'b image" where
  "map_image f im = \<lparr>width = width im, height = height im, pixels = (\<lambda>p. f (pixels im p))\<rparr>"

text \<open>The colour of each pixel, as pasting into an \<open>RGB\<close> image reads it.\<close>

fun to_rgb :: "source_image \<Rightarrow> rgb8 image" where
  "to_rgb (Bilevel im) = map_image (\<lambda>b. if b then (255, 255, 255) else (0, 0, 0)) im"
| "to_rgb (Gray im) = map_image (\<lambda>v. (v, v, v)) im"
| "to_rgb (GrayAlpha im) = map_image (\<lambda>(v, a). (v, v, v)) im"
| "to_rgb (Rgb im) = im"
| "to_rgb (Rgba im) = map_image fst im"
| "to_rgb (Palette im) = im"

text \<open>
  The band Pillow's \<open>paste\<close> takes from an image given as the mask: modes \<open>1\<close> and \<open>L\<close>
  are masks themselves, \<open>LA\<close> and \<open>RGBA\<close> give their alpha band, and any other mode is
  refused with \<open>ValueError\<close> (here \<open>None\<close>).
\<close>

fun mask_band :: "source_image \<Rightarrow> 8 word image option" where
  "mask_band (Bilevel im) = Some (map_image (\<lambda>b. if b then 255 else 0) im)"
| "mask_band (Gray im) = Some im"
| "mask_band (GrayAlpha im) = Some (map_image snd im)"
| "mask_band (Rgba im) = Some (map_image snd im)"
| "mask_band (Rgb im) = None"
| "mask_band (Palette im) = None"

text \<open>
  Pillow's blend of one 8-bit channel under a mask value: the destination is kept where
  the mask is 0, the source is copied where it is 255, and the two are mixed in between.
\<close>

definition blend8 :: "8 word \<Rightarrow> 8 word \<Rightarrow> 8 word \<Rightarrow> 8 word" where
  "blend8 m in1 in2 =
     (let t = unat in1 * (255 - unat m) + unat in2 * unat m + 128
      in of_nat ((t div 256 + t) div 256))"

definition paste_mask :: "rgb8 image \<Rightarrow> rgb8 image \<Rightarrow> 8 word image \<Rightarrow> rgb8 image" where
  "paste_mask dst src msk =
     dst\<lparr>pixels := (\<lambda>p. if covered dst src (0, 0) p
                          then (case pixels dst p of (r1, g1, b1) \<Rightarrow>
                                case pixels src p of (r2, g2, b2) \<Rightarrow>
                                  (let m = pixels msk p
                                   in (blend8 m r1 r2, blend8 m g1 g2, blend8 m b1 b2)))
                          else pixels dst p)\<rparr>"

text \<open>
  Step 1 of \<open>load_and_prepare_image\<close>: a white background, the image pasted with itself
  as the mask, and pasted directly when that raises \<open>ValueError\<close>.
\<close>

definition flatten :: "source_image \<Rightarrow> rgb8 image" where
  "flatten img =
     (let src = to_rgb img;
          bg = new_image (width src) (height src) (255, 255, 255)
      in case mask_band img of
           Some m \<Rightarrow> paste_mask bg src m
         | None \<Rightarrow> paste bg src (0, 0))"

section \<open>The program and its environment\<close>

datatype open_error = FileNotFoundError | OpenFailure string

text \<open>
  What the program takes from the image library and the file system. \<open>Image.open\<close> reads
  the header only: the pixel data of an opened image is decoded at its first use, which
  can raise (a truncated file), so an opened image is the outcome of that decoding. The
  grayscale conversion and the proportional resize can raise as well (a resize to size 0).
  The encoder answers \<open>Some e\<close> when it raises \<open>e\<close>; when it does not, the bytes it writes
  to the path are \<open>file_bytes\<close> of the path and the image.
\<close>

type_synonym opened_image = "py_error + source_image"

record library =
  image_open :: "string \<Rightarrow> open_error + opened_image"
  convert_L :: "rgb8 image \<Rightarrow> py_error + 8 word image"
  thumbnail :: "int \<Rightarrow> 8 word image \<Rightarrow> py_error + 8 word image"
  getrgb :: "string \<Rightarrow> color option"
  image_save :: "string \<Rightarrow> rgba image \<Rightarrow> string option"
  file_bytes :: "string \<Rightarrow> rgba image \<Rightarrow> 8 word list"

record args =
  image1 :: string
  image2 :: string
  output_path :: string
  color1 :: string
  color2 :: string
  size_opt :: int

datatype message =
    Starting
  | Loading_image nat string
  | Error_file_not_found string
  | Error_opening string string
  | Error_invalid_color string
  | Background_color nat color
  | Creating_canvas nat nat
  | Merging_channels
  | Executing_algorithm
  | Algorithm_complete
  | Adding_border
  | Saving_file
  | Success string
  | Error_saving string

text \<open>
  What a run does, in order: lines printed, calls that touch image files, and the bytes
  of a file it has written.
\<close>

datatype event =
    Print message
  | Image_open string
  | Image_save string
  | File_written string "8 word list"

text \<open>A step ends with a value, with \<open>sys.exit(n)\<close>, or with an exception nobody catches.\<close>

datatype 'a outcome = Value 'a | Exit nat | Uncaught py_error

type_synonym 'a io = "event list \<times> 'a outcome"

definition io_bind :: "'a io \<Rightarrow> ('a \<Rightarrow> 'b io) \<Rightarrow> 'b io" where
  "io_bind m f =
     (case m of
        (es, Value v) \<Rightarrow> (case f v of (es', r) \<Rightarrow> (es @ es', r))
      | (es, Exit n) \<Rightarrow> (es, Exit n)
      | (es, Uncaught e) \<Rightarrow> (es, Uncaught e))"

definition print :: "message \<Rightarrow> unit io" where
  "print m = ([Print m], Value ())"

text \<open>\<open>hex_to_rgb\<close>: a \<open>ValueError\<close> of the parser is printed and ends the process with status 1.\<close>

definition hex_to_rgb :: "library \<Rightarrow> string \<Rightarrow> color io" where
  "hex_to_rgb lib hex_str =
     (case getrgb lib hex_str of
        Some c \<Rightarrow> ([], Value c)
      | None \<Rightarrow> ([Print (Error_invalid_color hex_str)], Exit 1))"

text \<open>
  Steps 1 to 3 of \<open>load_and_prepare_image\<close>: the flatten step, the grayscale conversion
  and the resize. Only the \<open>ValueError\<close> of the masked paste is caught, and the direct
  paste in its handler decodes the same file again, so a failure of the decoding leaves the
  function as an exception whatever its class; so does one of the conversion or the resize.
\<close>

definition prepare :: "library \<Rightarrow> opened_image \<Rightarrow> int \<Rightarrow> py_error + 8 word image" where
  "prepare lib img sz =
     bind_err img (\<lambda>src.
     bind_err (convert_L lib (flatten src)) (\<lambda>gray.
       thumbnail lib sz gray))"

text \<open>
  \<open>load_and_prepare_image\<close>: both handlers of \<open>Image.open\<close> print and call \<open>sys.exit(1)\<close>;
  nothing catches what the steps after it raise.
\<close>

definition load_and_prepare_image :: "library \<Rightarrow> string \<Rightarrow> int \<Rightarrow> (8 word image) io" where
  "load_and_prepare_image lib image_path sz =
     (case image_open lib image_path of
        Inl FileNotFoundError \<Rightarrow>
          ([Image_open image_path, Print (Error_file_not_found image_path)], Exit 1)
      | Inl (OpenFailure e) \<Rightarrow>
          ([Image_open image_path, Print (Error_opening image_path e)], Exit 1)
      | Inr img \<Rightarrow>
          (case prepare lib img sz of
             Inl e \<Rightarrow> ([Image_open image_path], Uncaught e)
           | Inr prepared \<Rightarrow> ([Image_open image_path], Value prepared)))"

text \<open>
  Steps 3 and 4 of \<open>composite_images\<close>: the canvas size and the two layers. The offsets
  divide an int by the literal 2 in float arithmetic and round the quotient.
\<close>

definition center_offset :: "nat \<Rightarrow> nat \<Rightarrow> int" where
  "center_offset canvas_dim img_dim = py_round (fl (of_int (int canvas_dim - int img_dim) / 2))"

definition canvas :: "8 word image \<Rightarrow> 8 word image \<Rightarrow> 8 word image \<times> 8 word image" where
  "canvas img1 img2 =
     (let result_width = max (width img1) (width img2);
          result_height = max (height img1) (height img2);
          base1 = new_image result_width result_height 0;
          base2 = new_image result_width result_height 255;
          offset1 = (center_offset result_width (width img1),
                     center_offset result_height (height img1));
          offset2 = (center_offset result_width (width img2),
                     center_offset result_height (height img2))
      in (paste base1 img1 offset1, paste base2 img2 offset2))"

text \<open>Step 5: the two layers become the R and G bands, the B band is 0.\<close>

definition merge_rg :: "8 word image \<Rightarrow> 8 word image \<Rightarrow> rgb8 image" where
  "merge_rg base1 base2 =
     \<lparr>width = width base1, height = height base1,
      pixels = (\<lambda>p. (pixels base1 p, pixels base2 p, 0))\<rparr>"

text \<open>Step 7: the scan, row by row and within a row pixel by pixel.\<close>

fun scan_row ::
  "(nat \<times> nat \<Rightarrow> rgb8) \<Rightarrow> color \<Rightarrow> color \<Rightarrow> nat \<Rightarrow> nat list \<Rightarrow> (nat \<times> nat \<Rightarrow> rgba)
     \<Rightarrow> py_error + (nat \<times> nat \<Rightarrow> rgba)" where
  "scan_row merged_pixels bc1 bc2 y [] result_pixels = Inr result_pixels"
| "scan_row merged_pixels bc1 bc2 y (x # xs) result_pixels =
     (case merged_pixels (x, y) of (r_val, g_val, _) \<Rightarrow>
        bind_err (composite_pixel r_val g_val bc1 bc2) (\<lambda>px.
          scan_row merged_pixels bc1 bc2 y xs (result_pixels((x, y) := px))))"

fun scan_rows ::
  "(nat \<times> nat \<Rightarrow> rgb8) \<Rightarrow> color \<Rightarrow> color \<Rightarrow> nat \<Rightarrow> nat list \<Rightarrow> (nat \<times> nat \<Rightarrow> rgba)
     \<Rightarrow> py_error + (nat \<times> nat \<Rightarrow> rgba)" where
  "scan_rows merged_pixels bc1 bc2 w [] result_pixels = Inr result_pixels"
| "scan_rows merged_pixels bc1 bc2 w (y # ys) result_pixels =
     bind_err (scan_row merged_pixels bc1 bc2 y [0..<w] result_pixels)
       (scan_rows merged_pixels bc1 bc2 w ys)"

definition pixel_scan :: "rgb8 image \<Rightarrow> color \<Rightarrow> color \<Rightarrow> py_error + rgba image" where
  "pixel_scan merged_rg bc1 bc2 =
     (let result_image = new_image (width merged_rg) (height merged_rg) (0, 0, 0, 0)
      in bind_err
           (scan_rows (pixels merged_rg) bc1 bc2 (width merged_rg) [0..<height merged_rg]
              (pixels result_image))
           (\<lambda>px. Inr (result_image\<lparr>pixels := px\<rparr>)))"

text \<open>Step 7b: the transparent border.\<close>

definition add_border :: "rgba image \<Rightarrow> rgba image" where
  "add_border result_image =
     (let new_width = width result_image + 2;
          new_height = height result_image + 2;
          bordered_image = new_image new_width new_height (0, 0, 0, 0)
      in paste bordered_image result_image (1, 1))"

text \<open>Steps 3 to 7b together: from the two prepared images to the image handed to the encoder.\<close>

definition composited :: "8 word image \<Rightarrow> 8 word image \<Rightarrow> color \<Rightarrow> color \<Rightarrow> py_error + rgba image" where
  "composited img1 img2 bc1 bc2 =
     (case canvas img1 img2 of (base1, base2) \<Rightarrow> pixel_scan (merge_rg base1 base2) bc1 bc2)"

definition render :: "8 word image \<Rightarrow> 8 word image \<Rightarrow> color \<Rightarrow> color \<Rightarrow> py_error + rgba image" where
  "render img1 img2 bc1 bc2 =
     bind_err (composited img1 img2 bc1 bc2) (\<lambda>result_image. Inr (add_border result_image))"

text \<open>
  Step 8: the \<open>try\<close> around \<open>save\<close> catches every exception, prints it and falls through to
  the end of the function.
\<close>

definition save_step :: "library \<Rightarrow> string \<Rightarrow> rgba image \<Rightarrow> unit io" where
  "save_step lib path bordered_image =
     (case image_save lib path bordered_image of
        None \<Rightarrow>
          ([Image_save path, File_written path (file_bytes lib path bordered_image),
            Print (Success path)], Value ())
      | Some e \<Rightarrow> ([Image_save path, Print (Error_saving e)], Value ()))"

text \<open>
  \<open>composite_images\<close>, with its prints in the order of the source. Pixel access to the
  two in-memory images (\<open>load()\<close>) is taken to succeed; an exception of the scan would pass
  through uncaught.
\<close>

definition composite_images :: "library \<Rightarrow> args \<Rightarrow> unit io" where
  "composite_images lib a =
     io_bind (print Starting) (\<lambda>_.
     io_bind (print (Loading_image 1 (image1 a))) (\<lambda>_.
     io_bind (load_and_prepare_image lib (image1 a) (size_opt a)) (\<lambda>img1.
     io_bind (print (Loading_image 2 (image2 a))) (\<lambda>_.
     io_bind (load_and_prepare_image lib (image2 a) (size_opt a)) (\<lambda>img2.
     io_bind (hex_to_rgb lib (color1 a)) (\<lambda>bc1.
     io_bind (hex_to_rgb lib (color2 a)) (\<lambda>bc2.
     io_bind (print (Background_color 1 bc1)) (\<lambda>_.
     io_bind (print (Background_color 2 bc2)) (\<lambda>_.
     io_bind (print (Creating_canvas (max (width img1) (width img2))
                                     (max (height img1) (height img2)))) (\<lambda>_.
     io_bind (print Merging_channels) (\<lambda>_.
     io_bind (print Executing_algorithm) (\<lambda>_.
       case render img1 img2 bc1 bc2 of
         Inl e \<Rightarrow> ([], Uncaught e)
       | Inr bordered_image \<Rightarrow>
           io_bind (print Algorithm_complete) (\<lambda>_.
           io_bind (print Adding_border) (\<lambda>_.
           io_bind (print Saving_file) (\<lambda>_.
             save_step lib (output_path a) bordered_image)))))))))))))))"

text \<open>
  \<open>main\<close> after argument parsing: the process exit status is 0 when \<open>composite_images\<close>
  returns, the argument of \<open>sys.exit\<close> when it was called, and 1 after an uncaught exception.
\<close>

definition main :: "library \<Rightarrow> args \<Rightarrow> event list \<times> nat" where
  "main lib a =
     (case composite_images lib a of
        (es, Value _) \<Rightarrow> (es, 0)
      | (es, Exit n) \<Rightarrow> (es, n)
      | (es, Uncaught _) \<Rightarrow> (es, 1))"

text \<open>A colour of the data model: every channel in 0..255.\<close>

definition valid_color :: "color \<Rightarrow> bool" where
  "valid_color c = (case c of (r, g, b) \<Rightarrow> 0 \<le> r \<and> r \<le> 255 \<and> 0 \<le> g \<and> g \<le> 255 \<and> 0 \<le> b \<and> b \<le> 255)"

definition rgb_of :: "rgba \<Rightarrow> color" where
  "rgb_of px = (case px of (r, g, b, a) \<Rightarrow> (r, g, b))"

definition alpha_of :: "rgba \<Rightarrow> int" where
  "alpha_of px = (case px of (r, g, b, a) \<Rightarrow> a)"

text \<open>
  The canvas layers as the specification words them: the offset per axis is the rounded
  exact half of the slack, and a layer shows the image inside its box and the fill elsewhere.
\<close>

definition spec_offset :: "nat \<Rightarrow> nat \<Rightarrow> int" where
  "spec_offset canvas_dim img_dim = py_round (of_int (int canvas_dim - int img_dim) / 2)"

definition spec_layer :: "8 word image \<Rightarrow> 8 word \<Rightarrow> nat \<Rightarrow> nat \<Rightarrow> 8 word image" where
  "spec_layer img fill cw ch =
     \<lparr>width = cw, height = ch,
      pixels = (\<lambda>p. let ox = spec_offset cw (width img); oy = spec_offset ch (height img)
                    in if ox \<le> int (fst p) \<and> int (fst p) < ox + int (width img) \<and>
                          oy \<le> int (snd p) \<and> int (snd p) < oy + int (height img)
                       then pixels img (nat (int (fst p) - ox), nat (int (snd p) - oy))
                       else fill)\<rparr>"

section \<open>The colour parser and a sample environment\<close>

text \<open>
  Modelled from the spec: \<open>ImageColor.getrgb\<close> of the image library, which \<open>hex_to_rgb\<close>
  calls and which is not part of the sources. The specification gives its hex forms:
  \<open>#RGB\<close> or \<open>#RRGGBB\<close>, case-insensitive, with the leading \<open>#\<close>; a digit of the short form
  stands for the same digit twice. Anything else is refused (\<open>None\<close> for \<open>ValueError\<close>).
\<close>

definition hex_digit :: "char \<Rightarrow> int option" where
  "hex_digit c =
     (let n = (of_char c :: nat)
      in if 48 \<le> n \<and> n \<le> 57 then Some (int n - 48)
         else if 97 \<le> n \<and> n \<le> 102 then Some (int n - 87)
         else if 65 \<le> n \<and> n \<le> 70 then Some (int n - 55)
         else None)"

definition hex_pair :: "char \<Rightarrow> char \<Rightarrow> int option" where
  "hex_pair a b =
     (case hex_digit a of None \<Rightarrow> None
      | Some x \<Rightarrow> (case hex_digit b of None \<Rightarrow> None | Some y \<Rightarrow> Some (16 * x + y)))"

definition hex_triple :: "int option \<Rightarrow> int option \<Rightarrow> int option \<Rightarrow> color option" where
  "hex_triple r g b =
     (case r of None \<Rightarrow> None
      | Some x \<Rightarrow> (case g of None \<Rightarrow> None
          | Some y \<Rightarrow> (case b of None \<Rightarrow> None | Some z \<Rightarrow> Some (x, y, z))))"

definition getrgb_hex :: "string \<Rightarrow> color option" where
  "getrgb_hex s =
     (if s = [] \<or> hd s \<noteq> CHR ''#'' then None
      else if length s = 4 then
        hex_triple (hex_pair (s ! 1) (s ! 1)) (hex_pair (s ! 2) (s ! 2)) (hex_pair (s ! 3) (s ! 3))
      else if length s = 7 then
        hex_triple (hex_pair (s ! 1) (s ! 2)) (hex_pair (s ! 3) (s ! 4)) (hex_pair (s ! 5) (s ! 6))
      else None)"

text \<open>
  A sample environment: two small image files and one whose data is truncated, the
  library's luma transform, a resize that fails at size 0 and otherwise finds the files
  within the size limit and leaves them as they are, the hex parser, and an encoder that
  knows the \<open>.png\<close> extension only and writes the pixels row by row, four bytes each.
\<close>

definition luma :: "rgb8 \<Rightarrow> 8 word" where
  "luma c = (case c of (r, g, b) \<Rightarrow>
     of_nat ((unat r * 19595 + unat g * 38470 + unat b * 7471 + 32768) div 65536))"

definition sample_open :: "string \<Rightarrow> open_error + opened_image" where
  "sample_open p =
     (if p = ''a.png'' then Inr (Inr (Gray (new_image 3 5 7)))
      else if p = ''b.png'' then Inr (Inr (Rgb (new_image 6 4 (9, 9, 9))))
      else if p = ''truncated.png'' then Inr (Inl (OSError ''image file is truncated''))
      else if p = ''broken.png'' then Inl (OpenFailure ''cannot identify image file'')
      else Inl FileNotFoundError)"

definition sample_thumbnail :: "int \<Rightarrow> 8 word image \<Rightarrow> py_error + 8 word image" where
  "sample_thumbnail sz img = (if sz = 0 then Inl ZeroDivisionError else Inr img)"

definition raw_rgba :: "rgba image \<Rightarrow> 8 word list" where
  "raw_rgba img =
     concat (map (\<lambda>y. concat (map (\<lambda>x. case pixels img (x, y) of (r, g, b, al) \<Rightarrow>
                                          [of_int r, of_int g, of_int b, of_int al])
                                [0..<width img]))
                 [0..<height img])"

definition sample_save :: "string \<Rightarrow> rgba image \<Rightarrow> string option" where
  "sample_save p img =
     (if 4 \<le> length p \<and> drop (length p - 4) p = ''.png'' then None
      else Some ''unknown file extension'')"

definition sample_library :: library where
  "sample_library =
     \<lparr>image_open = sample_open, convert_L = (\<lambda>img. Inr (map_image luma img)),
      thumbnail = sample_thumbnail, getrgb = getrgb_hex, image_save = sample_save,
      file_bytes = (\<lambda>p. raw_rgba)\<rparr>"

definition sample_args :: "string \<Rightarrow> string \<Rightarrow> string \<Rightarrow> args" where
  "sample_args c1 c2 out =
     \<lparr>image1 = ''a.png'', image2 = ''b.png'', output_path = out,
      color1 = c1, color2 = c2, size_opt = 320\<rparr>"

text \<open>Properties of a run's trace that the claims speak of.\<close>

fun is_image_open :: "event \<Rightarrow> bool" where
  "is_image_open (Image_open _) = True"
| "is_image_open _ = False"

fun is_image_save :: "event \<Rightarrow> bool" where
  "is_image_save (Image_save _) = True"
| "is_image_save (File_written _ _) = True"
| "is_image_save _ = False"

text \<open>The file a run has written: its path and its bytes.\<close>

fun written_file :: "event list \<Rightarrow> (string \<times> 8 word list) option" where
  "written_file [] = None"
| "written_file (File_written p bs # es) = Some (p, bs)"
| "written_file (e # es) = written_file es"

fun is_diagnostic :: "event \<Rightarrow> bool" where
  "is_diagnostic (Print (Error_file_not_found _)) = True"
| "is_diagnostic (Print (Error_opening _ _)) = True"
| "is_diagnostic (Print (Error_invalid_color _)) = True"
| "is_diagnostic (Print (Error_saving _)) = True"
| "is_diagnostic _ = False"

fun is_canvas_print :: "event \<Rightarrow> bool" where
  "is_canvas_print (Print (Creating_canvas _ _)) = True"
| "is_canvas_print _ = False"

text \<open>"Rejected before any image processing begins": no image was opened during the run.\<close>

definition rejected_before_processing :: "event list \<Rightarrow> bool" where
  "rejected_before_processing es = (\<not> list_ex is_image_open es)"

section \<open>Auxiliary facts: exact float steps, the scan, the canvas, the runs\<close>

lemma py_round_of_int: "py_round (of_int n) = n"
  by (simp add: py_round_def)

lemma bit_length_le: "n < 2 ^ k \<Longrightarrow> bit_length n \<le> k"
proof (induction k arbitrary: n)
  case 0
  then show ?case by (simp add: bit_length.simps)
next
  case (Suc k)
  then have "n div 2 < 2 ^ k" by simp
  then have "bit_length (n div 2) \<le> k" by (rule Suc.IH)
  then show ?case by (subst bit_length.simps) simp
qed

lemma exponent_le:
  assumes "\<bar>x\<bar> < 2 ^ k" "0 < k"
  shows "exponent x \<le> int k - 1"
proof (cases "1 \<le> \<bar>x\<bar>")
  case True
  have "\<lfloor>\<bar>x\<bar>\<rfloor> < 2 ^ k" using assms(1) by (simp add: floor_less_iff)
  then have "nat \<lfloor>\<bar>x\<bar>\<rfloor> < 2 ^ k" by (simp add: nat_less_iff)
  then have "bit_length (nat \<lfloor>\<bar>x\<bar>\<rfloor>) \<le> k" by (rule bit_length_le)
  then show ?thesis using True by (simp add: exponent_def)
next
  case False
  define j where "j = bit_length (nat \<lfloor>1 / \<bar>x\<bar>\<rfloor>)"
  have "\<not> (j = 0 \<and> \<bar>x\<bar> * pow2 (int j - 1) = 1)"
    using False by (auto simp: pow2_def)
  then have "exponent x \<le> 0"
    using False by (auto simp: exponent_def Let_def j_def)
  then show ?thesis using assms(2) by simp
qed

lemma fl_half_int:
  assumes "\<bar>k\<bar> < 2 ^ 53"
  shows "fl (of_int k / 2) = of_int k / 2"
proof (cases "k = 0")
  case True
  then show ?thesis by (simp add: fl_def)
next
  case False
  define x :: rat where "x = of_int k / 2"
  have "\<bar>x\<bar> < 2 ^ 52"
  proof -
    have "\<bar>x\<bar> = of_int \<bar>k\<bar> / 2" by (simp add: x_def)
    also have "\<dots> < of_int (2 ^ 53) / 2" using assms by (simp only: divide_strict_right_mono of_int_less_iff zero_less_numeral)
    finally show ?thesis by simp
  qed
  then have "exponent x \<le> 51" using exponent_le [of x 52] by simp
  define n where "n = nat (51 - exponent x)"
  have n: "52 - exponent x = 1 + int n" using \<open>exponent x \<le> 51\<close> by (simp add: n_def)
  have p: "pow2 (1 + int n) = 2 * 2 ^ n" by (simp add: pow2_def nat_add_distrib)
  have q: "pow2 (- (1 + int n)) = 1 / (2 * 2 ^ n)" by (simp add: pow2_def nat_add_distrib)
  have "x * pow2 (1 + int n) = of_int (k * 2 ^ n)" by (simp add: x_def p)
  then have r: "py_round (x * pow2 (1 + int n)) = k * 2 ^ n" by (simp only: py_round_of_int)
  have "x \<noteq> 0" using False by (simp add: x_def)
  then have "fl x = of_int (k * 2 ^ n) * pow2 (- (1 + int n))"
    by (simp only: fl_def Let_def n r if_False)
  also have "\<dots> = x" by (simp only: q) (simp add: x_def)
  finally show ?thesis by (simp only: x_def)
qed

lemma fl_eq_half:
  assumes "x = of_int k / 2" "\<bar>k\<bar> < 1024"
  shows "fl x = of_int k / 2"
proof -
  have "\<bar>k\<bar> < 2 ^ 53" using assms(2) by simp
  then show ?thesis unfolding assms(1) by (rule fl_half_int)
qed

lemma float_of_int_exact: "\<bar>i\<bar> < 2 ^ 52 \<Longrightarrow> float_of_int i = of_int i"
  using fl_half_int [of "2 * i"] by (simp add: float_of_int_def)

lemma byte_bounds: "0 \<le> uint (w :: 8 word)" "uint (w :: 8 word) < 256"
  using uint_bounded [of w] by simp_all

lemma float_of_byte: "float_of_int (uint (w :: 8 word)) = of_int (uint w)"
  using byte_bounds [of w] by (intro float_of_int_exact) simp

lemma half_byte: "fl (of_int (uint (w :: 8 word)) / 2) = of_int (uint w) / 2"
  using byte_bounds [of w] by (intro fl_half_int) simp

lemma pre_alpha_exact:
  "fadd (fsub 255 (fadd (fl (float_of_int (uint g_val) / 2)) (255 / 2)))
        (fl (float_of_int (uint (r_val :: 8 word)) / 2))
   = of_int (255 - uint (g_val :: 8 word) + uint r_val) / 2"
proof -
  let ?g = "uint g_val" and ?r = "uint r_val"
  note bg = byte_bounds [of g_val] and br = byte_bounds [of r_val]
  have e1: "(of_int ?g / 2 + 255 / 2 :: rat) = of_int (?g + 255) / 2"
    by (simp add: field_simps)
  have b2: "fadd (of_int ?g / 2) (255 / 2) = of_int (?g + 255) / 2"
    unfolding fadd_def by (rule fl_eq_half [OF e1]) (use bg in linarith)
  have e2: "(255 - of_int (?g + 255) / 2 :: rat) = of_int (255 - ?g) / 2"
    by (simp add: field_simps)
  have s: "fsub 255 (of_int (?g + 255) / 2) = of_int (255 - ?g) / 2"
    unfolding fsub_def by (rule fl_eq_half [OF e2]) (use bg in linarith)
  have e3: "(of_int (255 - ?g) / 2 + of_int ?r / 2 :: rat) = of_int (255 - ?g + ?r) / 2"
    by (simp add: field_simps)
  have a: "fadd (of_int (255 - ?g) / 2) (of_int ?r / 2) = of_int (255 - ?g + ?r) / 2"
    unfolding fadd_def by (rule fl_eq_half [OF e3]) (use bg br in linarith)
  show ?thesis by (simp only: float_of_byte half_byte b2 s a)
qed

lemma composite_pixel_spec:
  "composite_pixel r_val g_val bc1 bc2 = Inr (spec_pixel py_round r_val g_val bc1 bc2)"
  by (cases bc1; cases bc2)
     (simp add: composite_pixel_def spec_pixel_def bind_err_def fdiv_def Let_def
        interpolate_def interpolate_channel_def spec_lerp_def clamp_def not_less)

lemma py_round_half:
  "py_round (of_int k / 2) =
     (if even k then k div 2 else if even (k div 2) then k div 2 else k div 2 + 1)"
proof (cases "even k")
  case True
  then obtain j where j: "k = 2 * j" by (elim evenE)
  have "(of_int k / 2 :: rat) = of_int j" by (simp add: j)
  then have "py_round (of_int k / 2) = j" by (simp only: py_round_of_int)
  then show ?thesis using True by (simp add: j)
next
  case False
  then obtain j where j: "k = 2 * j + 1" by (elim oddE)
  have x: "(of_int k / 2 :: rat) = of_int j + 1 / 2" by (simp add: j field_simps)
  have f: "\<lfloor>of_int j + (1 / 2 :: rat)\<rfloor> = j" by (simp add: floor_unique)
  have "py_round (of_int j + 1 / 2) = (if even j then j else j + 1)"
    by (simp add: py_round_def f Let_def)
  then show ?thesis using False by (simp add: x) (simp add: j)
qed

lemma py_round_half_bounds:
  assumes "0 \<le> k" "k \<le> 510"
  shows "0 \<le> py_round (of_int k / 2)" "py_round (of_int k / 2) \<le> 255"
proof -
  have lo: "0 \<le> k div 2" and hi: "k div 2 \<le> 255" using assms by linarith+
  have "odd k \<Longrightarrow> k \<noteq> 510" by auto
  then have "odd k \<Longrightarrow> k \<le> 509" using assms(2) by linarith
  then have hi': "odd k \<Longrightarrow> k div 2 \<le> 254" by linarith
  show "0 \<le> py_round (of_int k / 2)" using lo by (simp add: py_round_half)
  show "py_round (of_int k / 2) \<le> 255" using hi hi' by (simp add: py_round_half)
qed


lemma spec_pixel_alpha:
  "alpha_of (spec_pixel py_round r_val g_val bc1 bc2)
     = clamp (py_round (of_int (255 - uint g_val + uint r_val) / 2)) 0 255"
  by (simp add: spec_pixel_def alpha_of_def Let_def pre_alpha_exact)

lemma scan_row_result:
  "scan_row m bc1 bc2 y xs res =
     Inr (\<lambda>p. if snd p = y \<and> fst p \<in> set xs
               then (case m p of (r_val, g_val, _) \<Rightarrow> spec_pixel py_round r_val g_val bc1 bc2)
               else res p)"
proof (induction xs arbitrary: res)
  case Nil
  show ?case by simp
next
  case (Cons x xs)
  show ?case
    by (cases "m (x, y)") (auto simp: composite_pixel_spec bind_err_def Cons.IH fun_eq_iff)
qed

lemma scan_rows_result:
  "scan_rows m bc1 bc2 w ys res =
     Inr (\<lambda>p. if snd p \<in> set ys \<and> fst p < w
               then (case m p of (r_val, g_val, _) \<Rightarrow> spec_pixel py_round r_val g_val bc1 bc2)
               else res p)"
proof (induction ys arbitrary: res)
  case Nil
  show ?case by simp
next
  case (Cons y ys)
  show ?case
    by (auto simp: scan_row_result bind_err_def Cons.IH fun_eq_iff)
qed

lemma pixel_scan_result:
  "pixel_scan m bc1 bc2 =
     Inr \<lparr>width = width m, height = height m,
          pixels = (\<lambda>p. if fst p < width m \<and> snd p < height m
                        then (case pixels m p of (r_val, g_val, _) \<Rightarrow>
                                spec_pixel py_round r_val g_val bc1 bc2)
                        else (0, 0, 0, 0))\<rparr>"
  by (auto simp: pixel_scan_def scan_rows_result bind_err_def new_image_def Let_def fun_eq_iff)

lemma fl_of_int_exact: "\<bar>i\<bar> < 2 ^ 52 \<Longrightarrow> fl (of_int i) = of_int i"
  using float_of_int_exact [of i] by (simp add: float_of_int_def)

lemma fl_zero: "fl 0 = 0"
  by (simp add: fl_def)

lemma interpolate_channel_same:
  assumes "0 \<le> c" "c \<le> 255"
  shows "interpolate_channel t c c = c"
proof -
  have "\<bar>c\<bar> < 2 ^ 52" using assms by simp
  then have "fl (of_int c) = of_int c" by (rule fl_of_int_exact)
  then show ?thesis
    by (simp add: interpolate_channel_def fadd_def fmul_def float_of_int_def fl_zero py_round_of_int)
qed

lemma interpolate_channel_zero:
  assumes "0 \<le> c1" "c1 \<le> 255"
  shows "interpolate_channel 0 c1 c2 = c1"
proof -
  have "\<bar>c1\<bar> < 2 ^ 52" using assms by simp
  then have "fl (of_int c1) = of_int c1" by (rule fl_of_int_exact)
  then show ?thesis
    by (simp add: interpolate_channel_def fadd_def fmul_def float_of_int_def fl_zero py_round_of_int)
qed

lemma interpolate_channel_one:
  assumes "0 \<le> c1" "c1 \<le> 255" "0 \<le> c2" "c2 \<le> 255"
  shows "interpolate_channel 1 c1 c2 = c2"
proof -
  have "\<bar>c1\<bar> < 2 ^ 52" "\<bar>c2\<bar> < 2 ^ 52" "\<bar>c2 - c1\<bar> < 2 ^ 52" using assms by simp_all
  then have e: "fl (of_int c1) = of_int c1" "fl (of_int c2) = of_int c2"
    "fl (of_int (c2 - c1)) = of_int (c2 - c1)"
    by (simp_all only: fl_of_int_exact)
  have "fmul (float_of_int (c2 - c1)) 1 = of_int (c2 - c1)"
    by (simp only: fmul_def float_of_int_def mult_1_right e(3))
  moreover have "(of_int c1 + of_int (c2 - c1) :: rat) = of_int c2" by simp
  ultimately have "fadd (float_of_int c1) (fmul (float_of_int (c2 - c1)) 1) = of_int c2"
    by (simp only: fadd_def float_of_int_def e)
  then show ?thesis by (simp only: interpolate_channel_def py_round_of_int)
qed

lemma canvas_size:
  "width (fst (canvas img1 img2)) = max (width img1) (width img2)"
  "height (fst (canvas img1 img2)) = max (height img1) (height img2)"
  "width (snd (canvas img1 img2)) = max (width img1) (width img2)"
  "height (snd (canvas img1 img2)) = max (height img1) (height img2)"
  by (simp_all add: canvas_def Let_def paste_def new_image_def)

lemma composited_result:
  "composited img1 img2 bc1 bc2 =
     Inr \<lparr>width = max (width img1) (width img2), height = max (height img1) (height img2),
          pixels = (\<lambda>p. if fst p < max (width img1) (width img2) \<and>
                            snd p < max (height img1) (height img2)
                        then spec_pixel py_round (pixels (fst (canvas img1 img2)) p)
                               (pixels (snd (canvas img1 img2)) p) bc1 bc2
                        else (0, 0, 0, 0))\<rparr>"
proof -
  obtain base1 base2 where c: "canvas img1 img2 = (base1, base2)" by (cases "canvas img1 img2")
  have w: "width base1 = max (width img1) (width img2)"
    and h: "height base1 = max (height img1) (height img2)"
    using canvas_size(1,2) [of img1 img2] by (simp_all add: c)
  show ?thesis
    by (auto simp: composited_def c pixel_scan_result merge_rg_def w h fun_eq_iff)
qed

lemma render_result:
  "render img1 img2 bc1 bc2 =
     (case composited img1 img2 bc1 bc2 of Inl e \<Rightarrow> Inl e | Inr res \<Rightarrow> Inr (add_border res))"
  by (simp add: render_def bind_err_def)

lemma spec_lerp_py_round: "spec_lerp py_round c1 c2 t = interpolate_channel t c1 c2"
  by (simp add: spec_lerp_def interpolate_channel_def)

lemma py_round_one_half: "py_round (1 / 2) = 0"
  using py_round_half [of 1] by simp

lemma fl_one: "fl 1 = 1"
  using fl_half_int [of 2] by simp

lemma spec_pixel_exact:
  "spec_pixel py_round r_val g_val bc1 bc2 =
     (let b1 = (of_int (uint r_val) / 2 :: rat);
          a = (of_int (255 - uint g_val + uint r_val) / 2 :: rat);
          t = (if a \<le> 0 then 0 else fl (b1 / a))
      in (interpolate_channel t (fst bc1) (fst bc2),
          interpolate_channel t (fst (snd bc1)) (fst (snd bc2)),
          interpolate_channel t (snd (snd bc1)) (snd (snd bc2)),
          clamp (py_round a) 0 255))"
  apply (simp only: spec_pixel_def Let_def spec_lerp_py_round)
  apply (simp only: pre_alpha_exact)
  apply (simp only: float_of_byte half_byte)
  done

lemma add_border_result:
  "add_border res =
     \<lparr>width = width res + 2, height = height res + 2,
      pixels = (\<lambda>p. if 1 \<le> fst p \<and> fst p \<le> width res \<and> 1 \<le> snd p \<and> snd p \<le> height res
                    then pixels res (fst p - 1, snd p - 1)
                    else (0, 0, 0, 0))\<rparr>"
  by (auto simp: add_border_def Let_def paste_def new_image_def covered_def fun_eq_iff
      nat_diff_distrib')

lemma center_offset_exact:
  assumes "c < 2 ^ 31" "d < 2 ^ 31"
  shows "center_offset c d = spec_offset c d"
proof -
  have "\<bar>int c - int d\<bar> < 2 ^ 53" using assms by simp
  then show ?thesis by (simp only: center_offset_def spec_offset_def fl_half_int)
qed

lemma spec_offset_centered:
  assumes "d \<le> c"
  shows "0 \<le> spec_offset c d" "spec_offset c d + int d \<le> int c"
    "\<bar>2 * spec_offset c d - (int c - int d)\<bar> \<le> 1"
proof -
  define k where "k = int c - int d"
  have k: "0 \<le> k" using assms by (simp add: k_def)
  have o: "spec_offset c d = (if even k then k div 2 else if even (k div 2) then k div 2 else k div 2 + 1)"
    by (simp only: spec_offset_def py_round_half k_def)
  have "0 \<le> spec_offset c d \<and> spec_offset c d \<le> k \<and> \<bar>2 * spec_offset c d - k\<bar> \<le> 1"
  proof (cases "even k")
    case True
    then obtain j where "k = 2 * j" by (elim evenE)
    then show ?thesis using k by (simp add: o)
  next
    case False
    then obtain j where "k = 2 * j + 1" by (elim oddE)
    then show ?thesis using k by (simp add: o)
  qed
  then show "0 \<le> spec_offset c d" "spec_offset c d + int d \<le> int c"
    "\<bar>2 * spec_offset c d - (int c - int d)\<bar> \<le> 1"
    by (simp_all add: k_def)
qed

lemma paste_centered:
  assumes "width img \<le> cw" "height img \<le> ch" "cw < 2 ^ 31" "ch < 2 ^ 31"
  shows "paste (new_image cw ch fill) img
           (center_offset cw (width img), center_offset ch (height img))
         = spec_layer img fill cw ch"
proof -
  have w: "width img < 2 ^ 31" and h: "height img < 2 ^ 31" using assms by simp_all
  note ox = spec_offset_centered [OF assms(1)] and oy = spec_offset_centered [OF assms(2)]
  have "covered (new_image cw ch fill) img (spec_offset cw (width img), spec_offset ch (height img)) p
        = (spec_offset cw (width img) \<le> int (fst p) \<and>
           int (fst p) < spec_offset cw (width img) + int (width img) \<and>
           spec_offset ch (height img) \<le> int (snd p) \<and>
           int (snd p) < spec_offset ch (height img) + int (height img))" for p
    using ox(2) oy(2) by (cases p) (auto simp: covered_def new_image_def)
  then show ?thesis
    by (simp add: paste_def spec_layer_def center_offset_exact [OF assms(3) w]
        center_offset_exact [OF assms(4) h] new_image_def Let_def fun_eq_iff)
qed

lemma canvas_spec_layers:
  assumes "width img1 < 2 ^ 31" "height img1 < 2 ^ 31" "width img2 < 2 ^ 31" "height img2 < 2 ^ 31"
  shows "canvas img1 img2 =
           (spec_layer img1 0 (max (width img1) (width img2)) (max (height img1) (height img2)),
            spec_layer img2 255 (max (width img1) (width img2)) (max (height img1) (height img2)))"
proof -
  let ?cw = "max (width img1) (width img2)" and ?ch = "max (height img1) (height img2)"
  have cw: "?cw < 2 ^ 31" and ch: "?ch < 2 ^ 31" using assms by simp_all
  have l1: "width img1 \<le> ?cw" "height img1 \<le> ?ch" and l2: "width img2 \<le> ?cw" "height img2 \<le> ?ch"
    by simp_all
  show ?thesis
    by (simp only: canvas_def Let_def paste_centered [OF l1 cw ch] paste_centered [OF l2 cw ch])
qed

lemma render_total: "\<exists>b. render img1 img2 bc1 bc2 = Inr b"
  by (simp add: render_result composited_result)

lemma run_image1_fails:
  assumes "image_open lib (image1 a) = Inl e"
  shows "composite_images lib a =
           ([Print Starting, Print (Loading_image 1 (image1 a)), Image_open (image1 a),
             Print (case e of FileNotFoundError \<Rightarrow> Error_file_not_found (image1 a)
                    | OpenFailure m \<Rightarrow> Error_opening (image1 a) m)], Exit 1)"
  using assms
  by (cases e) (simp_all add: composite_images_def io_bind_def print_def load_and_prepare_image_def)

lemma run_image1_raises:
  assumes "image_open lib (image1 a) = Inr o1" "prepare lib o1 (size_opt a) = Inl e"
  shows "composite_images lib a =
           ([Print Starting, Print (Loading_image 1 (image1 a)), Image_open (image1 a)],
            Uncaught e)"
  using assms
  by (simp add: composite_images_def io_bind_def print_def load_and_prepare_image_def)

lemma run_image2_fails:
  assumes "image_open lib (image1 a) = Inr o1" "prepare lib o1 (size_opt a) = Inr g1"
    "image_open lib (image2 a) = Inl e"
  shows "composite_images lib a =
           ([Print Starting, Print (Loading_image 1 (image1 a)), Image_open (image1 a),
             Print (Loading_image 2 (image2 a)), Image_open (image2 a),
             Print (case e of FileNotFoundError \<Rightarrow> Error_file_not_found (image2 a)
                    | OpenFailure m \<Rightarrow> Error_opening (image2 a) m)], Exit 1)"
  using assms
  by (cases e) (simp_all add: composite_images_def io_bind_def print_def load_and_prepare_image_def)

lemma run_image2_raises:
  assumes "image_open lib (image1 a) = Inr o1" "prepare lib o1 (size_opt a) = Inr g1"
    "image_open lib (image2 a) = Inr o2" "prepare lib o2 (size_opt a) = Inl e"
  shows "composite_images lib a =
           ([Print Starting, Print (Loading_image 1 (image1 a)), Image_open (image1 a),
             Print (Loading_image 2 (image2 a)), Image_open (image2 a)], Uncaught e)"
  using assms
  by (simp add: composite_images_def io_bind_def print_def load_and_prepare_image_def)

lemma run_color1_invalid:
  assumes "image_open lib (image1 a) = Inr o1" "prepare lib o1 (size_opt a) = Inr g1"
    "image_open lib (image2 a) = Inr o2" "prepare lib o2 (size_opt a) = Inr g2"
    "getrgb lib (color1 a) = None"
  shows "composite_images lib a =
           ([Print Starting, Print (Loading_image 1 (image1 a)), Image_open (image1 a),
             Print (Loading_image 2 (image2 a)), Image_open (image2 a),
             Print (Error_invalid_color (color1 a))], Exit 1)"
  using assms
  by (simp add: composite_images_def io_bind_def print_def load_and_prepare_image_def
      hex_to_rgb_def)

lemma run_color2_invalid:
  assumes "image_open lib (image1 a) = Inr o1" "prepare lib o1 (size_opt a) = Inr g1"
    "image_open lib (image2 a) = Inr o2" "prepare lib o2 (size_opt a) = Inr g2"
    "getrgb lib (color1 a) = Some bc1" "getrgb lib (color2 a) = None"
  shows "composite_images lib a =
           ([Print Starting, Print (Loading_image 1 (image1 a)), Image_open (image1 a),
             Print (Loading_image 2 (image2 a)), Image_open (image2 a),
             Print (Error_invalid_color (color2 a))], Exit 1)"
  using assms
  by (simp add: composite_images_def io_bind_def print_def load_and_prepare_image_def
      hex_to_rgb_def)

lemma run_to_save:
  assumes "image_open lib (image1 a) = Inr o1" "prepare lib o1 (size_opt a) = Inr g1"
    "image_open lib (image2 a) = Inr o2" "prepare lib o2 (size_opt a) = Inr g2"
    "getrgb lib (color1 a) = Some bc1" "getrgb lib (color2 a) = Some bc2"
    "render g1 g2 bc1 bc2 = Inr b"
  shows "composite_images lib a =
           ([Print Starting, Print (Loading_image 1 (image1 a)), Image_open (image1 a),
             Print (Loading_image 2 (image2 a)), Image_open (image2 a),
             Print (Background_color 1 bc1), Print (Background_color 2 bc2),
             Print (Creating_canvas (max (width g1) (width g2)) (max (height g1) (height g2))),
             Print Merging_channels, Print Executing_algorithm, Print Algorithm_complete,
             Print Adding_border, Print Saving_file, Image_save (output_path a)]
            @ (case image_save lib (output_path a) b of
                 None \<Rightarrow> [File_written (output_path a) (file_bytes lib (output_path a) b),
                           Print (Success (output_path a))]
               | Some e \<Rightarrow> [Print (Error_saving e)]),
            Value ())"
  using assms
  by (cases "image_save lib (output_path a) b")
    (simp_all add: composite_images_def io_bind_def print_def load_and_prepare_image_def
      hex_to_rgb_def save_step_def)

lemma getrgb_hex_short: "getrgb_hex ''#FFF'' = Some (255, 255, 255)"
  by (simp add: getrgb_hex_def hex_triple_def hex_pair_def hex_digit_def)

lemma getrgb_hex_long: "getrgb_hex ''#FFFFFF'' = Some (255, 255, 255)"
  by (simp add: getrgb_hex_def hex_triple_def hex_pair_def hex_digit_def)

lemma getrgb_hex_black: "getrgb_hex ''#000000'' = Some (0, 0, 0)"
  by (simp add: getrgb_hex_def hex_triple_def hex_pair_def hex_digit_def)

lemma getrgb_hex_notacolor: "getrgb_hex ''notacolor'' = None"
  by (simp add: getrgb_hex_def)

lemma sample_library_sel:
  "image_open sample_library = sample_open" "getrgb sample_library = getrgb_hex"
  "image_save sample_library = sample_save" "thumbnail sample_library = sample_thumbnail"
  "convert_L sample_library = (\<lambda>img. Inr (map_image luma img))"
  "file_bytes sample_library = (\<lambda>p. raw_rgba)"
  by (simp_all add: sample_library_def)

lemma sample_args_sel:
  "image1 (sample_args c1 c2 out) = ''a.png''" "image2 (sample_args c1 c2 out) = ''b.png''"
  "color1 (sample_args c1 c2 out) = c1" "color2 (sample_args c1 c2 out) = c2"
  "output_path (sample_args c1 c2 out) = out" "size_opt (sample_args c1 c2 out) = 320"
  by (simp_all add: sample_args_def)

lemma sample_open_files:
  "sample_open ''a.png'' = Inr (Inr (Gray (new_image 3 5 7)))"
  "sample_open ''b.png'' = Inr (Inr (Rgb (new_image 6 4 (9, 9, 9))))"
  "sample_open ''truncated.png'' = Inr (Inl (OSError ''image file is truncated''))"
  "sample_open ''missing.png'' = Inl FileNotFoundError"
  by (simp_all add: sample_open_def)

lemma sample_prepare:
  "prepare sample_library (Inr src) 320
     = Inr (map_image luma (flatten src))"
  "prepare sample_library (Inl e) sz = Inl e"
  by (simp_all add: prepare_def bind_err_def sample_library_sel sample_thumbnail_def)

lemma raw_rgba_length: "length (raw_rgba img) = 4 * width img * height img"
proof -
  have row: "length (concat (map (\<lambda>x. case pixels img (x, y) of (r, g, b, al) \<Rightarrow>
                 [of_int r, of_int g, of_int b, of_int al :: 8 word]) xs)) = 4 * length xs"
    for y xs
    by (induction xs) (simp_all split: prod.splits)
  have "length (concat (map (\<lambda>y. concat (map (\<lambda>x. case pixels img (x, y) of (r, g, b, al) \<Rightarrow>
                 [of_int r, of_int g, of_int b, of_int al :: 8 word]) [0..<width img])) ys))
        = 4 * width img * length ys" for ys
    by (induction ys) (simp_all add: row)
  then show ?thesis by (simp add: raw_rgba_def)
qed

section \<open>The pixel compositor against the specification\<close>

text \<open>
  Claim C1. For all 8-bit intensities and all background colours the compositor's pixel is
  the pixel of the specification's algorithm, with Python's \<open>round\<close> (ties to even) as the
  rounding policy, and the scan stores exactly that pixel at every position of the canvas.
\<close>

theorem C1_compositor_refines_spec:
  "composite_pixel r_val g_val bc1 bc2 = Inr (spec_pixel py_round r_val g_val bc1 bc2) \<and>
   pixel_scan merged_rg bc1 bc2 =
     Inr \<lparr>width = width merged_rg, height = height merged_rg,
          pixels = (\<lambda>p. if fst p < width merged_rg \<and> snd p < height merged_rg
                        then (case pixels merged_rg p of (r, g, _) \<Rightarrow>
                                spec_pixel py_round r g bc1 bc2)
                        else (0, 0, 0, 0))\<rparr>"
  using composite_pixel_spec pixel_scan_result by simp

text \<open>
  Claim C2. For all 8-bit intensities the compositor raises nothing, in particular no
  \<open>ZeroDivisionError\<close>, and its alpha lies in 0..255; the alpha is the rounded
  \<open>(255 - g_val + r_val) / 2\<close>.
\<close>

theorem C2_compositor_total_alpha_in_range:
  "\<exists>r g b al. composite_pixel r_val g_val bc1 bc2 = Inr (r, g, b, al) \<and>
     0 \<le> al \<and> al \<le> 255 \<and> al = py_round (of_int (255 - uint g_val + uint r_val) / 2)"
proof -
  let ?k = "255 - uint g_val + uint r_val"
  have k: "0 \<le> ?k" "?k \<le> 510"
    using byte_bounds [of g_val] byte_bounds [of r_val] by linarith+
  note b = py_round_half_bounds [OF k]
  have "alpha_of (spec_pixel py_round r_val g_val bc1 bc2) = py_round (of_int ?k / 2)"
    using b by (simp add: spec_pixel_alpha clamp_def)
  then show ?thesis
    using b by (cases "spec_pixel py_round r_val g_val bc1 bc2")
      (simp add: composite_pixel_spec alpha_of_def)
qed

text \<open>
  Claim C9. Whenever \<open>255 - g_val + r_val = 1\<close> the pre-clamp alpha is one half, which
  Python's \<open>round\<close> takes to 0, so the pixel is fully transparent although the input is not
  \<open>(0, 255)\<close>; with colours of the data model, \<open>(1, 255)\<close> gives alpha 0 with colour \<open>bc2\<close>
  and \<open>(0, 254)\<close> gives alpha 0 with colour \<open>bc1\<close>.
\<close>

theorem C9_half_alpha_is_transparent:
  "(255 - uint g_val + uint r_val = 1 \<longrightarrow>
      (\<exists>r g b. composite_pixel r_val g_val bc1 bc2 = Inr (r, g, b, 0))) \<and>
   (valid_color bc1 \<and> valid_color bc2 \<longrightarrow>
      composite_pixel 1 255 bc1 bc2 = Inr (fst bc2, fst (snd bc2), snd (snd bc2), 0) \<and>
      composite_pixel 0 254 bc1 bc2 = Inr (fst bc1, fst (snd bc1), snd (snd bc1), 0))"
proof (rule conjI; rule impI)
  assume k: "255 - uint g_val + uint r_val = 1"
  have "alpha_of (spec_pixel py_round r_val g_val bc1 bc2) = 0"
    by (simp add: spec_pixel_alpha k py_round_one_half clamp_def)
  then show "\<exists>r g b. composite_pixel r_val g_val bc1 bc2 = Inr (r, g, b, 0)"
    by (cases "spec_pixel py_round r_val g_val bc1 bc2")
      (simp add: composite_pixel_spec alpha_of_def)
next
  assume v: "valid_color bc1 \<and> valid_color bc2"
  obtain r1 g1 b1 where c1: "bc1 = (r1, g1, b1)" by (cases bc1)
  obtain r2 g2 b2 where c2: "bc2 = (r2, g2, b2)" by (cases bc2)
  note i = v [unfolded c1 c2 valid_color_def, simplified]
  have "spec_pixel py_round 1 255 bc1 bc2 = (r2, g2, b2, 0)"
    using i by (simp add: spec_pixel_exact c1 c2 fl_one interpolate_channel_one
        py_round_one_half clamp_def)
  moreover have "spec_pixel py_round 0 254 bc1 bc2 = (r1, g1, b1, 0)"
    using i by (simp add: spec_pixel_exact c1 c2 fl_zero interpolate_channel_zero
        py_round_one_half clamp_def)
  ultimately show
    "composite_pixel 1 255 bc1 bc2 = Inr (fst bc2, fst (snd bc2), snd (snd bc2), 0) \<and>
     composite_pixel 0 254 bc1 bc2 = Inr (fst bc1, fst (snd bc1), snd (snd bc1), 0)"
    by (simp add: composite_pixel_spec c1 c2)
qed

theorem C9_half_alpha_witness:
  "255 - uint (254 :: 8 word) + uint (0 :: 8 word) = 1 \<and>
   valid_color (10, 20, 30) \<and> valid_color (200, 100, 50) \<and>
   (\<exists>r g b. composite_pixel 0 254 (10, 20, 30) (200, 100, 50) = Inr (r, g, b, 0)) \<and>
   composite_pixel 1 255 (10, 20, 30) (200, 100, 50) = Inr (200, 100, 50, 0) \<and>
   composite_pixel 0 254 (10, 20, 30) (200, 100, 50) = Inr (10, 20, 30, 0)"
  using C9_half_alpha_is_transparent [of 254 0 "(10, 20, 30)" "(200, 100, 50)"]
  by (simp add: valid_color_def)

text \<open>
  Claim C10. With equal background colours of the data model, \<open>interpolate\<close> returns that
  colour for every fraction, and every pixel of the composited image has it as its RGB
  channels, whatever the two images are.
\<close>

theorem C10_equal_backgrounds:
  "valid_color bc \<longrightarrow>
     interpolate t bc bc = bc \<and>
     (\<exists>res. composited img1 img2 bc bc = Inr res \<and>
        width res = max (width img1) (width img2) \<and>
        height res = max (height img1) (height img2) \<and>
        (\<forall>x y. x < width res \<and> y < height res \<longrightarrow> rgb_of (pixels res (x, y)) = bc))"
proof
  assume v: "valid_color bc"
  obtain r g b where c: "bc = (r, g, b)" by (cases bc)
  note i = v [unfolded c valid_color_def, simplified]
  have s: "interpolate_channel u r r = r" "interpolate_channel u g g = g"
    "interpolate_channel u b b = b" for u
    using i by (simp_all add: interpolate_channel_same)
  have "rgb_of (spec_pixel py_round p q bc bc) = bc" for p q
    by (simp add: spec_pixel_def rgb_of_def Let_def c spec_lerp_py_round s)
  then show "interpolate t bc bc = bc \<and>
     (\<exists>res. composited img1 img2 bc bc = Inr res \<and>
        width res = max (width img1) (width img2) \<and>
        height res = max (height img1) (height img2) \<and>
        (\<forall>x y. x < width res \<and> y < height res \<longrightarrow> rgb_of (pixels res (x, y)) = bc))"
    by (simp add: composited_result interpolate_def c s)
qed

theorem C10_equal_backgrounds_witness:
  "valid_color (10, 20, 30) \<and>
   interpolate (1 / 3) (10, 20, 30) (10, 20, 30) = (10, 20, 30) \<and>
   (\<exists>res. composited (new_image 1 1 7) (new_image 1 1 9) (10, 20, 30) (10, 20, 30) = Inr res \<and>
      (0 :: nat) < width res \<and> (0 :: nat) < height res \<and>
      rgb_of (pixels res (0, 0)) = (10, 20, 30))"
proof -
  have v: "valid_color (10, 20, 30)" by (simp add: valid_color_def)
  from C10_equal_backgrounds [of "(10, 20, 30)" "1 / 3" "new_image 1 1 7" "new_image 1 1 9"] v
  obtain res where
    r: "interpolate (1 / 3) (10, 20, 30) (10, 20, 30) = (10, 20, 30)"
      "composited (new_image 1 1 7) (new_image 1 1 9) (10, 20, 30) (10, 20, 30) = Inr res"
      "width res = max (width (new_image 1 1 (7 :: 8 word))) (width (new_image 1 1 (9 :: 8 word)))"
      "height res = max (height (new_image 1 1 (7 :: 8 word))) (height (new_image 1 1 (9 :: 8 word)))"
      "\<forall>x y. x < width res \<and> y < height res \<longrightarrow> rgb_of (pixels res (x, y)) = (10, 20, 30)"
    by blast
  have d: "0 < width res" "0 < height res" using r(3,4) by (simp_all add: new_image_def)
  then have "rgb_of (pixels res (0, 0)) = (10, 20, 30)" using r(5) by blast
  then show ?thesis using v r(1,2) d by blast
qed

section \<open>Canvas and border\<close>

text \<open>
  Claim C5. The image handed to the encoder is the composited image with a border: it is
  2 wider and 2 higher than the canvas, every pixel of its outer ring has alpha 0, and its
  interior shifted by (1, 1) is the composited image pixel for pixel.
\<close>

theorem C5_transparent_border:
  "\<exists>res. composited img1 img2 bc1 bc2 = Inr res \<and>
     render img1 img2 bc1 bc2 = Inr (add_border res) \<and>
     width res = max (width img1) (width img2) \<and>
     height res = max (height img1) (height img2) \<and>
     width (add_border res) = max (width img1) (width img2) + 2 \<and>
     height (add_border res) = max (height img1) (height img2) + 2 \<and>
     (\<forall>x y. x = 0 \<or> y = 0 \<or> x = width res + 1 \<or> y = height res + 1 \<longrightarrow>
        alpha_of (pixels (add_border res) (x, y)) = 0) \<and>
     (\<forall>x y. x < width res \<and> y < height res \<longrightarrow>
        pixels (add_border res) (x + 1, y + 1) = pixels res (x, y))"
proof -
  obtain res where r: "composited img1 img2 bc1 bc2 = Inr res"
    and w: "width res = max (width img1) (width img2)"
    and h: "height res = max (height img1) (height img2)"
    by (simp add: composited_result)
  have "render img1 img2 bc1 bc2 = Inr (add_border res)"
    by (simp add: render_result r)
  moreover have "alpha_of (pixels (add_border res) (x, y)) = 0"
    if "x = 0 \<or> y = 0 \<or> x = width res + 1 \<or> y = height res + 1" for x y
    using that by (auto simp: add_border_result alpha_of_def)
  moreover have "pixels (add_border res) (x + 1, y + 1) = pixels res (x, y)"
    if "x < width res \<and> y < height res" for x y
    using that by (simp add: add_border_result)
  ultimately show ?thesis
    using r w h by (intro exI [of _ res]) (simp add: add_border_result)
qed

theorem C5_transparent_border_witness:
  "\<exists>res. render (new_image 3 5 7) (new_image 6 4 9) (0, 0, 0) (255, 255, 255) = Inr (add_border res) \<and>
     width (add_border res) = 8 \<and> height (add_border res) = 7 \<and>
     ((0 :: nat) = 0 \<or> (3 :: nat) = 0 \<or> 0 = width res + 1 \<or> 3 = height res + 1) \<and>
     alpha_of (pixels (add_border res) (0, 3)) = 0 \<and>
     (4 < width res \<and> 3 < height res) \<and>
     pixels (add_border res) (4 + 1, 3 + 1) = pixels res (4, 3)"
proof -
  from C5_transparent_border [of "new_image 3 5 7" "new_image 6 4 9" "(0, 0, 0)" "(255, 255, 255)"]
  obtain res where
    r: "render (new_image 3 5 7) (new_image 6 4 9) (0, 0, 0) (255, 255, 255) = Inr (add_border res)"
      "width res = max (width (new_image 3 5 (7 :: 8 word))) (width (new_image 6 4 (9 :: 8 word)))"
      "height res = max (height (new_image 3 5 (7 :: 8 word))) (height (new_image 6 4 (9 :: 8 word)))"
      "width (add_border res) = max (width (new_image 3 5 (7 :: 8 word))) (width (new_image 6 4 (9 :: 8 word))) + 2"
      "height (add_border res) = max (height (new_image 3 5 (7 :: 8 word))) (height (new_image 6 4 (9 :: 8 word))) + 2"
      "\<forall>x y. x = 0 \<or> y = 0 \<or> x = width res + 1 \<or> y = height res + 1 \<longrightarrow>
          alpha_of (pixels (add_border res) (x, y)) = 0"
      "\<forall>x y. x < width res \<and> y < height res \<longrightarrow>
          pixels (add_border res) (x + 1, y + 1) = pixels res (x, y)"
    by blast
  have d: "width res = 6" "height res = 5" "width (add_border res) = 8" "height (add_border res) = 7"
    using r(2-5) by (simp_all add: new_image_def)
  have "alpha_of (pixels (add_border res) (0, 3)) = 0" using r(6) by blast
  moreover have "pixels (add_border res) (4 + 1, 3 + 1) = pixels res (4, 3)"
    using r(7) [rule_format, of 4 3] d by simp
  ultimately show ?thesis using r(1) d by (intro exI [of _ res]) simp
qed

text \<open>
  Claim C6. For two prepared images (sizes below \<open>2^31\<close>, as the image library has them) the
  canvas is the componentwise maximum of their sizes; image1 lies on a canvas of intensity 0
  and image2 on one of intensity 255, each at the offset \<open>round((canvasDim - imgDim) / 2)\<close>
  per axis with Python's \<open>round\<close> (ties to even) for both images and both axes; the image
  lies wholly inside the canvas, at most half a pixel off centre, and outside its box the
  canvas keeps its fill.
\<close>

theorem C6_centered_canvas:
  assumes "width img1 < 2 ^ 31" "height img1 < 2 ^ 31" "width img2 < 2 ^ 31" "height img2 < 2 ^ 31"
  shows "canvas img1 img2 =
           (spec_layer img1 0 (max (width img1) (width img2)) (max (height img1) (height img2)),
            spec_layer img2 255 (max (width img1) (width img2)) (max (height img1) (height img2))) \<and>
         0 \<le> spec_offset (max (width img1) (width img2)) (width img1) \<and>
         spec_offset (max (width img1) (width img2)) (width img1) + int (width img1)
           \<le> int (max (width img1) (width img2)) \<and>
         0 \<le> spec_offset (max (height img1) (height img2)) (height img1) \<and>
         spec_offset (max (height img1) (height img2)) (height img1) + int (height img1)
           \<le> int (max (height img1) (height img2)) \<and>
         0 \<le> spec_offset (max (width img1) (width img2)) (width img2) \<and>
         spec_offset (max (width img1) (width img2)) (width img2) + int (width img2)
           \<le> int (max (width img1) (width img2)) \<and>
         0 \<le> spec_offset (max (height img1) (height img2)) (height img2) \<and>
         spec_offset (max (height img1) (height img2)) (height img2) + int (height img2)
           \<le> int (max (height img1) (height img2)) \<and>
         \<bar>2 * spec_offset (max (width img1) (width img2)) (width img1)
            - (int (max (width img1) (width img2)) - int (width img1))\<bar> \<le> 1 \<and>
         \<bar>2 * spec_offset (max (height img1) (height img2)) (height img1)
            - (int (max (height img1) (height img2)) - int (height img1))\<bar> \<le> 1 \<and>
         \<bar>2 * spec_offset (max (width img1) (width img2)) (width img2)
            - (int (max (width img1) (width img2)) - int (width img2))\<bar> \<le> 1 \<and>
         \<bar>2 * spec_offset (max (height img1) (height img2)) (height img2)
            - (int (max (height img1) (height img2)) - int (height img2))\<bar> \<le> 1"
proof -
  have l1: "width img1 \<le> max (width img1) (width img2)"
    "height img1 \<le> max (height img1) (height img2)"
    and l2: "width img2 \<le> max (width img1) (width img2)"
    "height img2 \<le> max (height img1) (height img2)"
    by simp_all
  show ?thesis
    using canvas_spec_layers [OF assms]
      spec_offset_centered [OF l1(1)] spec_offset_centered [OF l1(2)]
      spec_offset_centered [OF l2(1)] spec_offset_centered [OF l2(2)]
    by (simp only: simp_thms)
qed

theorem C6_centered_canvas_witness:
  "width (new_image 3 5 (7 :: 8 word)) < 2 ^ 31 \<and> height (new_image 3 5 (7 :: 8 word)) < 2 ^ 31 \<and>
   width (new_image 6 4 (9 :: 8 word)) < 2 ^ 31 \<and> height (new_image 6 4 (9 :: 8 word)) < 2 ^ 31 \<and>
   canvas (new_image 3 5 7) (new_image 6 4 9)
     = (spec_layer (new_image 3 5 7) 0 6 5, spec_layer (new_image 6 4 9) 255 6 5) \<and>
   spec_offset 6 3 = 2 \<and> spec_offset 5 4 = 0"
proof -
  have b: "width (new_image 3 5 (7 :: 8 word)) < 2 ^ 31" "height (new_image 3 5 (7 :: 8 word)) < 2 ^ 31"
    "width (new_image 6 4 (9 :: 8 word)) < 2 ^ 31" "height (new_image 6 4 (9 :: 8 word)) < 2 ^ 31"
    by (simp_all add: new_image_def)
  have o: "spec_offset 6 3 = 2" "spec_offset 5 4 = 0"
    using py_round_half [of 3] py_round_half [of 1] by (simp_all add: spec_offset_def)
  have m: "max (width (new_image 3 5 (7 :: 8 word))) (width (new_image 6 4 (9 :: 8 word))) = 6"
    "max (height (new_image 3 5 (7 :: 8 word))) (height (new_image 6 4 (9 :: 8 word))) = 5"
    by (simp_all add: new_image_def)
  from C6_centered_canvas [OF b]
  have "canvas (new_image 3 5 7) (new_image 6 4 9)
     = (spec_layer (new_image 3 5 7) 0 6 5, spec_layer (new_image 6 4 9) 255 6 5)"
    unfolding m by (rule conjunct1)
  then show ?thesis using b o by simp
qed

section \<open>Runs of the program\<close>

text \<open>
  Claim C3. When the encoder fails, the run prints the error and then returns normally,
  so the exit status is 0: here with an output path whose extension the encoder does not
  know, both images and both colours being fine.
\<close>

theorem C3_save_failure_exits_zero:
  "sample_save ''result.xyz'' b = Some ''unknown file extension'' \<and>
   snd (main sample_library (sample_args ''#000000'' ''#FFFFFF'' ''result.xyz'')) = 0 \<and>
   last (fst (main sample_library (sample_args ''#000000'' ''#FFFFFF'' ''result.xyz'')))
     = Print (Error_saving ''unknown file extension'')"
proof -
  let ?a = "sample_args ''#000000'' ''#FFFFFF'' ''result.xyz''"
  let ?g1 = "map_image luma (flatten (Gray (new_image 3 5 7)))"
  let ?g2 = "map_image luma (flatten (Rgb (new_image 6 4 (9, 9, 9))))"
  have s: "sample_save ''result.xyz'' x = Some ''unknown file extension''" for x
    by (simp add: sample_save_def)
  obtain bd where bd: "render ?g1 ?g2 (0, 0, 0) (255, 255, 255) = Inr bd"
    using render_total by blast
  have r: "composite_images sample_library ?a =
      ([Print Starting, Print (Loading_image 1 ''a.png''), Image_open ''a.png'',
        Print (Loading_image 2 ''b.png''), Image_open ''b.png'',
        Print (Background_color 1 (0, 0, 0)), Print (Background_color 2 (255, 255, 255)),
        Print (Creating_canvas (max (width ?g1) (width ?g2)) (max (height ?g1) (height ?g2))),
        Print Merging_channels, Print Executing_algorithm, Print Algorithm_complete,
        Print Adding_border, Print Saving_file, Image_save ''result.xyz'',
        Print (Error_saving ''unknown file extension'')], Value ())"
    using run_to_save [of sample_library ?a "Inr (Gray (new_image 3 5 7))" ?g1
        "Inr (Rgb (new_image 6 4 (9, 9, 9)))" ?g2 "(0, 0, 0)" "(255, 255, 255)" bd]
    by (simp add: sample_library_sel sample_args_sel sample_open_files getrgb_hex_black
        getrgb_hex_long bd s sample_prepare)
  show ?thesis by (simp add: main_def r s)
qed

text \<open>
  Claim C7 as stated fails: the colours are parsed only after both images have been opened
  and prepared. With the colour \<open>notacolor\<close> the run opens both image files before it
  rejects the colour; when the first image is missing the run ends on that error without
  looking at the colour at all; and when the data of the first image is truncated the run
  ends on the uncaught exception of the flatten step, with status 1 and no diagnostic of
  its own.
\<close>

theorem C7_rejection_after_loading_counterexample:
  "getrgb sample_library ''notacolor'' = None \<and>
   main sample_library (sample_args ''notacolor'' ''#FFFFFF'' ''result.png'')
     = ([Print Starting, Print (Loading_image 1 ''a.png''), Image_open ''a.png'',
         Print (Loading_image 2 ''b.png''), Image_open ''b.png'',
         Print (Error_invalid_color ''notacolor'')], 1) \<and>
   \<not> rejected_before_processing
       (fst (main sample_library (sample_args ''notacolor'' ''#FFFFFF'' ''result.png''))) \<and>
   main sample_library
       ((sample_args ''notacolor'' ''#FFFFFF'' ''result.png'')\<lparr>image1 := ''missing.png''\<rparr>)
     = ([Print Starting, Print (Loading_image 1 ''missing.png''), Image_open ''missing.png'',
         Print (Error_file_not_found ''missing.png'')], 1) \<and>
   composite_images sample_library
       ((sample_args ''notacolor'' ''#FFFFFF'' ''result.png'')\<lparr>image1 := ''truncated.png''\<rparr>)
     = ([Print Starting, Print (Loading_image 1 ''truncated.png''), Image_open ''truncated.png''],
        Uncaught (OSError ''image file is truncated''))"
proof -
  let ?a = "sample_args ''notacolor'' ''#FFFFFF'' ''result.png''"
  have 1: "composite_images sample_library ?a
     = ([Print Starting, Print (Loading_image 1 ''a.png''), Image_open ''a.png'',
         Print (Loading_image 2 ''b.png''), Image_open ''b.png'',
         Print (Error_invalid_color ''notacolor'')], Exit 1)"
    using run_color1_invalid [of sample_library ?a "Inr (Gray (new_image 3 5 7))" _
        "Inr (Rgb (new_image 6 4 (9, 9, 9)))"]
    by (simp add: sample_library_sel sample_args_sel sample_open_files getrgb_hex_notacolor
        sample_prepare)
  have 2: "composite_images sample_library (?a\<lparr>image1 := ''missing.png''\<rparr>)
     = ([Print Starting, Print (Loading_image 1 ''missing.png''), Image_open ''missing.png'',
         Print (Error_file_not_found ''missing.png'')], Exit 1)"
    using run_image1_fails [of sample_library "?a\<lparr>image1 := ''missing.png''\<rparr>" FileNotFoundError]
    by (simp add: sample_library_sel sample_open_files)
  have 3: "composite_images sample_library (?a\<lparr>image1 := ''truncated.png''\<rparr>)
     = ([Print Starting, Print (Loading_image 1 ''truncated.png''), Image_open ''truncated.png''],
        Uncaught (OSError ''image file is truncated''))"
    using run_image1_raises [of sample_library "?a\<lparr>image1 := ''truncated.png''\<rparr>"
        "Inl (OSError ''image file is truncated'')" "OSError ''image file is truncated''"]
    by (simp add: sample_library_sel sample_open_files sample_prepare)
  show ?thesis
    by (simp add: main_def 1 2 3 sample_library_sel getrgb_hex_notacolor
        rejected_before_processing_def)
qed

text \<open>
  Claim C7 as amended. If a colour argument does not parse, the run ends with exit status 1
  before the canvas is built and without calling the encoder: on a printed diagnostic,
  unless opening went well and preparing an image raised an exception that nobody catches.
  The colours are examined after both images have been opened and prepared, so that with
  both images prepared the trace is: the two loads, then the colour error. The hex parser
  takes \<open>#FFF\<close> and \<open>#FFFFFF\<close> to (255, 255, 255) and refuses \<open>notacolor\<close>.
\<close>

theorem C7_invalid_color_exit:
  "(getrgb lib (color1 a) = None \<or> getrgb lib (color2 a) = None \<longrightarrow>
      snd (main lib a) = 1 \<and>
      \<not> list_ex is_image_save (fst (main lib a)) \<and>
      \<not> list_ex is_canvas_print (fst (main lib a)) \<and>
      ((\<exists>e. snd (composite_images lib a) = Uncaught e) \<or>
       is_diagnostic (last (fst (main lib a))))) \<and>
   (image_open lib (image1 a) = Inr o1 \<and> prepare lib o1 (size_opt a) = Inr g1 \<and>
    image_open lib (image2 a) = Inr o2 \<and> prepare lib o2 (size_opt a) = Inr g2 \<and>
    getrgb lib (color1 a) = None \<longrightarrow>
      main lib a =
        ([Print Starting, Print (Loading_image 1 (image1 a)), Image_open (image1 a),
          Print (Loading_image 2 (image2 a)), Image_open (image2 a),
          Print (Error_invalid_color (color1 a))], 1)) \<and>
   getrgb_hex ''#FFF'' = Some (255, 255, 255) \<and>
   getrgb_hex ''#FFFFFF'' = Some (255, 255, 255) \<and>
   getrgb_hex ''notacolor'' = None"
proof (intro conjI impI)
  assume inv: "getrgb lib (color1 a) = None \<or> getrgb lib (color2 a) = None"
  let ?P = "\<lambda>r. snd (case r of (es, Value x) \<Rightarrow> (es, 0 :: nat) | (es, Exit n) \<Rightarrow> (es, n)
                          | (es, Uncaught x) \<Rightarrow> (es, 1)) = 1 \<and>
      \<not> list_ex is_image_save (fst r) \<and> \<not> list_ex is_canvas_print (fst r) \<and>
      ((\<exists>e. snd r = Uncaught e) \<or> is_diagnostic (last (fst r)))"
  have "?P (composite_images lib a)"
  proof (cases "image_open lib (image1 a)")
    case (Inl e)
    show ?thesis by (cases e) (simp_all add: run_image1_fails [OF Inl])
  next
    case o1: (Inr o1)
    show ?thesis
    proof (cases "prepare lib o1 (size_opt a)")
      case (Inl e)
      show ?thesis by (simp add: run_image1_raises [OF o1 Inl])
    next
      case g1: (Inr g1)
      show ?thesis
      proof (cases "image_open lib (image2 a)")
        case (Inl e)
        show ?thesis by (cases e) (simp_all add: run_image2_fails [OF o1 g1 Inl])
      next
        case o2: (Inr o2)
        show ?thesis
        proof (cases "prepare lib o2 (size_opt a)")
          case (Inl e)
          show ?thesis by (simp add: run_image2_raises [OF o1 g1 o2 Inl])
        next
          case g2: (Inr g2)
          show ?thesis
          proof (cases "getrgb lib (color1 a)")
            case None
            show ?thesis by (simp add: run_color1_invalid [OF o1 g1 o2 g2 None])
          next
            case (Some bc1)
            then have "getrgb lib (color2 a) = None" using inv by simp
            then show ?thesis by (simp add: run_color2_invalid [OF o1 g1 o2 g2 Some])
          qed
        qed
      qed
    qed
  qed
  then show "snd (main lib a) = 1"
    "\<not> list_ex is_image_save (fst (main lib a))" "\<not> list_ex is_canvas_print (fst (main lib a))"
    "(\<exists>e. snd (composite_images lib a) = Uncaught e) \<or> is_diagnostic (last (fst (main lib a)))"
    by (cases "composite_images lib a"; cases "snd (composite_images lib a)";
        simp add: main_def)+
next
  assume "image_open lib (image1 a) = Inr o1 \<and> prepare lib o1 (size_opt a) = Inr g1 \<and>
    image_open lib (image2 a) = Inr o2 \<and> prepare lib o2 (size_opt a) = Inr g2 \<and>
    getrgb lib (color1 a) = None"
  then show "main lib a =
        ([Print Starting, Print (Loading_image 1 (image1 a)), Image_open (image1 a),
          Print (Loading_image 2 (image2 a)), Image_open (image2 a),
          Print (Error_invalid_color (color1 a))], 1)"
    by (simp add: main_def run_color1_invalid)
qed (simp_all only: getrgb_hex_short getrgb_hex_long getrgb_hex_notacolor)

theorem C7_invalid_color_exit_witness:
  "(getrgb sample_library (color1 (sample_args ''notacolor'' ''#FFFFFF'' ''result.png'')) = None \<or>
    getrgb sample_library (color2 (sample_args ''notacolor'' ''#FFFFFF'' ''result.png'')) = None) \<and>
   image_open sample_library (image1 (sample_args ''notacolor'' ''#FFFFFF'' ''result.png''))
     = Inr (Inr (Gray (new_image 3 5 7))) \<and>
   prepare sample_library (Inr (Gray (new_image 3 5 7)))
       (size_opt (sample_args ''notacolor'' ''#FFFFFF'' ''result.png''))
     = Inr (map_image luma (flatten (Gray (new_image 3 5 7)))) \<and>
   image_open sample_library (image2 (sample_args ''notacolor'' ''#FFFFFF'' ''result.png''))
     = Inr (Inr (Rgb (new_image 6 4 (9, 9, 9)))) \<and>
   prepare sample_library (Inr (Rgb (new_image 6 4 (9, 9, 9))))
       (size_opt (sample_args ''notacolor'' ''#FFFFFF'' ''result.png''))
     = Inr (map_image luma (flatten (Rgb (new_image 6 4 (9, 9, 9))))) \<and>
   getrgb sample_library (color1 (sample_args ''notacolor'' ''#FFFFFF'' ''result.png'')) = None \<and>
   snd (main sample_library (sample_args ''notacolor'' ''#FFFFFF'' ''result.png'')) = 1 \<and>
   \<not> list_ex is_image_save (fst (main sample_library (sample_args ''notacolor'' ''#FFFFFF'' ''result.png''))) \<and>
   main sample_library (sample_args ''notacolor'' ''#FFFFFF'' ''result.png'')
     = ([Print Starting, Print (Loading_image 1 ''a.png''), Image_open ''a.png'',
         Print (Loading_image 2 ''b.png''), Image_open ''b.png'',
         Print (Error_invalid_color ''notacolor'')], 1)"
  using C7_invalid_color_exit [of sample_library "sample_args ''notacolor'' ''#FFFFFF'' ''result.png''"
      "Inr (Gray (new_image 3 5 7))" "map_image luma (flatten (Gray (new_image 3 5 7)))"
      "Inr (Rgb (new_image 6 4 (9, 9, 9)))" "map_image luma (flatten (Rgb (new_image 6 4 (9, 9, 9))))"]
  by (simp add: sample_library_sel sample_args_sel sample_open_files getrgb_hex_notacolor
      sample_prepare)

section \<open>The flatten step of the loader\<close>

lemma flatten_rgb_unchanged:
  "x < width im \<Longrightarrow> y < height im \<Longrightarrow> pixels (flatten (Rgb im)) (x, y) = pixels im (x, y)"
  by (simp add: flatten_def paste_def covered_def new_image_def Let_def)

text \<open>
  Claim C4. A grayscale image has no alpha channel, yet the flatten step does not keep its
  pixels: the paste accepts the image itself as the mask, so no \<open>ValueError\<close> is raised and
  a black pixel (0) is left as the white background, a mid-gray pixel (128) becomes 191.
\<close>

theorem C4_grayscale_is_its_own_mask:
  "\<not> has_alpha (Gray (new_image 1 1 0)) \<and>
   pixels (to_rgb (Gray (new_image 1 1 0))) (0, 0) = (0, 0, 0) \<and>
   pixels (flatten (Gray (new_image 1 1 0))) (0, 0) = (255, 255, 255) \<and>
   pixels (to_rgb (Gray (new_image 1 1 128))) (0, 0) = (128, 128, 128) \<and>
   pixels (flatten (Gray (new_image 1 1 128))) (0, 0) = (191, 191, 191)"
  by (simp add: flatten_def paste_mask_def covered_def new_image_def map_image_def blend8_def
      Let_def)

section \<open>Determinism\<close>

text \<open>
  Claim C8. The bytes a run writes are the encoding of the rendered image, and a run
  reads nothing but the two named files, the two colour strings, the size and the output
  path: two runs in environments that agree on these (and on the library's conversion,
  resize and encoder) print the same, end with the same status and write the same bytes,
  whatever else differs between the environments. Within the rendered image, a pixel is a
  function of the two co-located canvas intensities and the two background colours only:
  two renderings, of whatever images, that agree on the two intensities at some canvas
  positions and on the colours give the same output pixel at those positions.
\<close>

theorem C8_deterministic_output:
  "(image_open lib (image1 a) = image_open lib' (image1 a) \<and>
    image_open lib (image2 a) = image_open lib' (image2 a) \<and>
    convert_L lib = convert_L lib' \<and> thumbnail lib = thumbnail lib' \<and>
    getrgb lib (color1 a) = getrgb lib' (color1 a) \<and>
    getrgb lib (color2 a) = getrgb lib' (color2 a) \<and>
    image_save lib (output_path a) = image_save lib' (output_path a) \<and>
    file_bytes lib (output_path a) = file_bytes lib' (output_path a) \<longrightarrow>
      main lib a = main lib' a \<and>
      written_file (fst (main lib a)) = written_file (fst (main lib' a))) \<and>
   (image_open lib (image1 a) = Inr o1 \<and> prepare lib o1 (size_opt a) = Inr g1 \<and>
    image_open lib (image2 a) = Inr o2 \<and> prepare lib o2 (size_opt a) = Inr g2 \<and>
    getrgb lib (color1 a) = Some c1 \<and> getrgb lib (color2 a) = Some c2 \<and>
    render g1 g2 c1 c2 = Inr b \<and> image_save lib (output_path a) b = None \<longrightarrow>
      snd (main lib a) = 0 \<and>
      written_file (fst (main lib a)) = Some (output_path a, file_bytes lib (output_path a) b)) \<and>
   (x < max (width i1) (width i2) \<and> y < max (height i1) (height i2) \<and>
    x' < max (width j1) (width j2) \<and> y' < max (height j1) (height j2) \<and>
    pixels (fst (canvas i1 i2)) (x, y) = pixels (fst (canvas j1 j2)) (x', y') \<and>
    pixels (snd (canvas i1 i2)) (x, y) = pixels (snd (canvas j1 j2)) (x', y') \<longrightarrow>
      (\<exists>r r'. render i1 i2 bc1 bc2 = Inr r \<and> render j1 j2 bc1 bc2 = Inr r' \<and>
         pixels r (x + 1, y + 1) = pixels r' (x' + 1, y' + 1)))"
proof (intro conjI; rule impI)
  assume "image_open lib (image1 a) = image_open lib' (image1 a) \<and>
    image_open lib (image2 a) = image_open lib' (image2 a) \<and>
    convert_L lib = convert_L lib' \<and> thumbnail lib = thumbnail lib' \<and>
    getrgb lib (color1 a) = getrgb lib' (color1 a) \<and>
    getrgb lib (color2 a) = getrgb lib' (color2 a) \<and>
    image_save lib (output_path a) = image_save lib' (output_path a) \<and>
    file_bytes lib (output_path a) = file_bytes lib' (output_path a)"
  then have o1: "image_open lib' (image1 a) = image_open lib (image1 a)"
    and o2: "image_open lib' (image2 a) = image_open lib (image2 a)"
    and cv: "convert_L lib' = convert_L lib" and th: "thumbnail lib' = thumbnail lib"
    and g1: "getrgb lib' (color1 a) = getrgb lib (color1 a)"
    and g2: "getrgb lib' (color2 a) = getrgb lib (color2 a)"
    and sv: "image_save lib' (output_path a) = image_save lib (output_path a)"
    and fb: "file_bytes lib' (output_path a) = file_bytes lib (output_path a)"
    by simp_all
  have pe: "prepare lib' img sz = prepare lib img sz" for img sz
    by (simp add: prepare_def cv th)
  have "composite_images lib a = composite_images lib' a"
  proof (cases "image_open lib (image1 a)")
    case (Inl e)
    show ?thesis
      by (simp only: run_image1_fails [OF Inl] run_image1_fails [OF Inl [folded o1]])
  next
    case s1: (Inr s1)
    show ?thesis
    proof (cases "prepare lib s1 (size_opt a)")
      case (Inl e)
      show ?thesis
        by (simp only: run_image1_raises [OF s1 Inl]
            run_image1_raises [OF s1 [folded o1] Inl [folded pe]])
    next
      case p1: (Inr p1)
      show ?thesis
      proof (cases "image_open lib (image2 a)")
        case (Inl e)
        show ?thesis
          by (simp only: run_image2_fails [OF s1 p1 Inl]
              run_image2_fails [OF s1 [folded o1] p1 [folded pe] Inl [folded o2]])
      next
        case s2: (Inr s2)
        show ?thesis
        proof (cases "prepare lib s2 (size_opt a)")
          case (Inl e)
          show ?thesis
            by (simp only: run_image2_raises [OF s1 p1 s2 Inl]
                run_image2_raises [OF s1 [folded o1] p1 [folded pe] s2 [folded o2] Inl [folded pe]])
        next
          case p2: (Inr p2)
          show ?thesis
          proof (cases "getrgb lib (color1 a)")
            case None
            show ?thesis
              by (simp only: run_color1_invalid [OF s1 p1 s2 p2 None]
                  run_color1_invalid [OF s1 [folded o1] p1 [folded pe] s2 [folded o2]
                    p2 [folded pe] None [folded g1]])
          next
            case k1: (Some k1)
            show ?thesis
            proof (cases "getrgb lib (color2 a)")
              case None
              show ?thesis
                by (simp only: run_color2_invalid [OF s1 p1 s2 p2 k1 None]
                    run_color2_invalid [OF s1 [folded o1] p1 [folded pe] s2 [folded o2]
                      p2 [folded pe] k1 [folded g1] None [folded g2]])
            next
              case k2: (Some k2)
              obtain bd where bd: "render p1 p2 k1 k2 = Inr bd"
                using render_total by blast
              show ?thesis
                by (simp only: run_to_save [OF s1 p1 s2 p2 k1 k2 bd]
                    run_to_save [OF s1 [folded o1] p1 [folded pe] s2 [folded o2] p2 [folded pe]
                      k1 [folded g1] k2 [folded g2] bd] sv fb)
            qed
          qed
        qed
      qed
    qed
  qed
  then show "main lib a = main lib' a \<and>
      written_file (fst (main lib a)) = written_file (fst (main lib' a))"
    by (simp add: main_def)
next
  assume "image_open lib (image1 a) = Inr o1 \<and> prepare lib o1 (size_opt a) = Inr g1 \<and>
    image_open lib (image2 a) = Inr o2 \<and> prepare lib o2 (size_opt a) = Inr g2 \<and>
    getrgb lib (color1 a) = Some c1 \<and> getrgb lib (color2 a) = Some c2 \<and>
    render g1 g2 c1 c2 = Inr b \<and> image_save lib (output_path a) b = None"
  then have h: "image_open lib (image1 a) = Inr o1" "prepare lib o1 (size_opt a) = Inr g1"
    "image_open lib (image2 a) = Inr o2" "prepare lib o2 (size_opt a) = Inr g2"
    "getrgb lib (color1 a) = Some c1" "getrgb lib (color2 a) = Some c2"
    "render g1 g2 c1 c2 = Inr b" and s: "image_save lib (output_path a) b = None"
    by simp_all
  show "snd (main lib a) = 0 \<and>
      written_file (fst (main lib a)) = Some (output_path a, file_bytes lib (output_path a) b)"
    by (simp add: main_def run_to_save [OF h] s)
next
  assume h: "x < max (width i1) (width i2) \<and> y < max (height i1) (height i2) \<and>
    x' < max (width j1) (width j2) \<and> y' < max (height j1) (height j2) \<and>
    pixels (fst (canvas i1 i2)) (x, y) = pixels (fst (canvas j1 j2)) (x', y') \<and>
    pixels (snd (canvas i1 i2)) (x, y) = pixels (snd (canvas j1 j2)) (x', y')"
  obtain r where r: "composited i1 i2 bc1 bc2 = Inr r"
    and rw: "width r = max (width i1) (width i2)" and rh: "height r = max (height i1) (height i2)"
    and rp: "pixels r (x, y) = spec_pixel py_round (pixels (fst (canvas i1 i2)) (x, y))
                                 (pixels (snd (canvas i1 i2)) (x, y)) bc1 bc2"
    using h by (simp add: composited_result)
  obtain r' where r': "composited j1 j2 bc1 bc2 = Inr r'"
    and rw': "width r' = max (width j1) (width j2)" and rh': "height r' = max (height j1) (height j2)"
    and rp': "pixels r' (x', y') = spec_pixel py_round (pixels (fst (canvas j1 j2)) (x', y'))
                                 (pixels (snd (canvas j1 j2)) (x', y')) bc1 bc2"
    using h by (simp add: composited_result)
  have "pixels (add_border r) (x + 1, y + 1) = pixels r (x, y)"
    using h rw rh by (simp add: add_border_result)
  moreover have "pixels (add_border r') (x' + 1, y' + 1) = pixels r' (x', y')"
    using h rw' rh' by (simp add: add_border_result)
  ultimately have "pixels (add_border r) (x + 1, y + 1) = pixels (add_border r') (x' + 1, y' + 1)"
    using h rp rp' by simp
  then show "\<exists>r r'. render i1 i2 bc1 bc2 = Inr r \<and> render j1 j2 bc1 bc2 = Inr r' \<and>
         pixels r (x + 1, y + 1) = pixels r' (x' + 1, y' + 1)"
    by (simp add: render_result r r')
qed

theorem C8_deterministic_output_witness:
  "\<exists>b. (image_open sample_library ''a.png''
         = image_open (sample_library\<lparr>image_open :=
             (sample_open(''c.png'' := Inr (Inr (Gray (new_image 3 3 0)))))\<rparr>) ''a.png'' \<and>
        image_save sample_library ''result.png''
         = image_save (sample_library\<lparr>image_open :=
             (sample_open(''c.png'' := Inr (Inr (Gray (new_image 3 3 0)))))\<rparr>) ''result.png'') \<and>
       main sample_library (sample_args ''#000000'' ''#FFFFFF'' ''result.png'')
         = main (sample_library\<lparr>image_open :=
             (sample_open(''c.png'' := Inr (Inr (Gray (new_image 3 3 0)))))\<rparr>)
             (sample_args ''#000000'' ''#FFFFFF'' ''result.png'') \<and>
       written_file (fst (main sample_library (sample_args ''#000000'' ''#FFFFFF'' ''result.png'')))
         = written_file (fst (main (sample_library\<lparr>image_open :=
             (sample_open(''c.png'' := Inr (Inr (Gray (new_image 3 3 0)))))\<rparr>)
             (sample_args ''#000000'' ''#FFFFFF'' ''result.png''))) \<and>
       render (map_image luma (flatten (Gray (new_image 3 5 7))))
              (map_image luma (flatten (Rgb (new_image 6 4 (9, 9, 9))))) (0, 0, 0) (255, 255, 255)
         = Inr b \<and>
       image_save sample_library ''result.png'' b = None \<and>
       snd (main sample_library (sample_args ''#000000'' ''#FFFFFF'' ''result.png'')) = 0 \<and>
       written_file (fst (main sample_library (sample_args ''#000000'' ''#FFFFFF'' ''result.png'')))
         = Some (''result.png'', raw_rgba b) \<and>
       length (raw_rgba b) = 224 \<and>
       ((3 :: nat) < max (width (new_image 3 5 (7 :: 8 word))) (width (new_image 6 4 (9 :: 8 word))) \<and>
        (1 :: nat) < max (height (new_image 3 5 (7 :: 8 word))) (height (new_image 6 4 (9 :: 8 word))) \<and>
        (0 :: nat) < max (width (new_image 4 4 (7 :: 8 word))) (width (new_image 4 4 (9 :: 8 word))) \<and>
        (0 :: nat) < max (height (new_image 4 4 (7 :: 8 word))) (height (new_image 4 4 (9 :: 8 word))) \<and>
        pixels (fst (canvas (new_image 3 5 7) (new_image 6 4 9))) (3, 1)
          = pixels (fst (canvas (new_image 4 4 7) (new_image 4 4 9))) (0, 0) \<and>
        pixels (snd (canvas (new_image 3 5 7) (new_image 6 4 9))) (3, 1)
          = pixels (snd (canvas (new_image 4 4 7) (new_image 4 4 9))) (0, 0)) \<and>
       (\<exists>r r'. render (new_image 3 5 7) (new_image 6 4 9) (10, 20, 30) (200, 100, 50) = Inr r \<and>
          render (new_image 4 4 7) (new_image 4 4 9) (10, 20, 30) (200, 100, 50) = Inr r' \<and>
          pixels r (3 + 1, 1 + 1) = pixels r' (0 + 1, 0 + 1))"
proof -
  let ?lib' = "sample_library\<lparr>image_open :=
      (sample_open(''c.png'' := Inr (Inr (Gray (new_image 3 3 0)))))\<rparr>"
  let ?a = "sample_args ''#000000'' ''#FFFFFF'' ''result.png''"
  let ?o1 = "Inr (Gray (new_image 3 5 7)) :: opened_image"
  let ?o2 = "Inr (Rgb (new_image 6 4 (9, 9, 9))) :: opened_image"
  let ?g1 = "map_image luma (flatten (Gray (new_image 3 5 7)))"
  let ?g2 = "map_image luma (flatten (Rgb (new_image 6 4 (9, 9, 9))))"
  have nb: "width (new_image w h (v :: 8 word)) = w" "height (new_image w h v) = h" for w h v
    by (simp_all add: new_image_def)
  have o: "spec_offset 6 3 = 2" "spec_offset 5 5 = 0" "spec_offset 6 6 = 0" "spec_offset 5 4 = 0"
    "spec_offset 4 4 = 0"
    using py_round_half [of 3] py_round_half [of 1] py_round_half [of 0]
    by (simp_all add: spec_offset_def)
  have c1: "canvas (new_image 3 5 7) (new_image 6 4 9)
      = (spec_layer (new_image 3 5 7) 0 6 5, spec_layer (new_image 6 4 9) 255 6 5)"
    using canvas_spec_layers [of "new_image 3 5 7" "new_image 6 4 9"] by (simp add: nb)
  have c2: "canvas (new_image 4 4 7) (new_image 4 4 9)
      = (spec_layer (new_image 4 4 7) 0 4 4, spec_layer (new_image 4 4 9) 255 4 4)"
    using canvas_spec_layers [of "new_image 4 4 7" "new_image 4 4 9"] by (simp add: nb)
  have p: "pixels (fst (canvas (new_image 3 5 7) (new_image 6 4 9))) (3, 1)
      = pixels (fst (canvas (new_image 4 4 7) (new_image 4 4 9))) (0, 0)"
    "pixels (snd (canvas (new_image 3 5 7) (new_image 6 4 9))) (3, 1)
      = pixels (snd (canvas (new_image 4 4 7) (new_image 4 4 9))) (0, 0)"
    by (simp_all add: c1 c2 spec_layer_def nb o) (simp_all add: new_image_def)
  have d: "(3 :: nat) < max (width (new_image 3 5 (7 :: 8 word))) (width (new_image 6 4 (9 :: 8 word)))"
    "(1 :: nat) < max (height (new_image 3 5 (7 :: 8 word))) (height (new_image 6 4 (9 :: 8 word)))"
    "(0 :: nat) < max (width (new_image 4 4 (7 :: 8 word))) (width (new_image 4 4 (9 :: 8 word)))"
    "(0 :: nat) < max (height (new_image 4 4 (7 :: 8 word))) (height (new_image 4 4 (9 :: 8 word)))"
    by (simp_all add: nb)
  have e: "image_open sample_library (image1 ?a) = image_open ?lib' (image1 ?a)"
    "image_open sample_library (image2 ?a) = image_open ?lib' (image2 ?a)"
    "convert_L sample_library = convert_L ?lib'" "thumbnail sample_library = thumbnail ?lib'"
    "getrgb sample_library (color1 ?a) = getrgb ?lib' (color1 ?a)"
    "getrgb sample_library (color2 ?a) = getrgb ?lib' (color2 ?a)"
    "image_save sample_library (output_path ?a) = image_save ?lib' (output_path ?a)"
    "file_bytes sample_library (output_path ?a) = file_bytes ?lib' (output_path ?a)"
    by (simp_all add: sample_library_sel sample_args_sel)
  obtain b where b: "render ?g1 ?g2 (0, 0, 0) (255, 255, 255) = Inr b"
    using render_total by blast
  have sz: "width b = 8" "height b = 7"
    using b by (auto simp: render_result composited_result add_border_result map_image_def
        flatten_def paste_def paste_mask_def new_image_def Let_def)
  have len: "length (raw_rgba b) = 224" by (simp add: raw_rgba_length sz)
  have s: "image_save sample_library ''result.png'' b = None"
    by (simp add: sample_library_sel sample_save_def)
  have i: "image_open sample_library (image1 ?a) = Inr ?o1"
    "prepare sample_library ?o1 (size_opt ?a) = Inr ?g1"
    "image_open sample_library (image2 ?a) = Inr ?o2"
    "prepare sample_library ?o2 (size_opt ?a) = Inr ?g2"
    "getrgb sample_library (color1 ?a) = Some (0, 0, 0)"
    "getrgb sample_library (color2 ?a) = Some (255, 255, 255)"
    by (simp_all add: sample_library_sel sample_args_sel sample_open_files sample_prepare
        getrgb_hex_black getrgb_hex_long)
  note t = C8_deterministic_output [of sample_library ?a ?lib' ?o1 ?g1 ?o2 ?g2
      "(0, 0, 0)" "(255, 255, 255)" b 3 "new_image 3 5 7" "new_image 6 4 9" 1
      0 "new_image 4 4 7" "new_image 4 4 9" 0 "(10, 20, 30)" "(200, 100, 50)"]
  note tB = t [THEN conjunct1] and tC = t [THEN conjunct2, THEN conjunct1]
    and tA = t [THEN conjunct2, THEN conjunct2]
  have t1: "main sample_library ?a = main ?lib' ?a"
    "written_file (fst (main sample_library ?a)) = written_file (fst (main ?lib' ?a))"
    using tB e by (simp_all only: simp_thms)
  have s': "image_save sample_library (output_path ?a) b = None"
    by (simp add: sample_library_sel sample_args_sel sample_save_def)
  have t2': "snd (main sample_library ?a) = 0"
    "written_file (fst (main sample_library ?a))
       = Some (output_path ?a, file_bytes sample_library (output_path ?a) b)"
    using tC i b s' by (simp_all only: simp_thms)
  have t2: "snd (main sample_library ?a) = 0"
    "written_file (fst (main sample_library ?a)) = Some (''result.png'', raw_rgba b)"
    using t2' by (simp_all only: sample_args_sel sample_library_sel)
  have t3: "\<exists>r r'. render (new_image 3 5 7) (new_image 6 4 9) (10, 20, 30) (200, 100, 50) = Inr r \<and>
          render (new_image 4 4 7) (new_image 4 4 9) (10, 20, 30) (200, 100, 50) = Inr r' \<and>
          pixels r (3 + 1, 1 + 1) = pixels r' (0 + 1, 0 + 1)"
    using tA d p by (simp only: simp_thms)
  have e': "image_open sample_library ''a.png'' = image_open ?lib' ''a.png''"
    "image_save sample_library ''result.png'' = image_save ?lib' ''result.png''"
    using e(1,7) by (simp_all only: sample_args_sel)
  show ?thesis
    using e' t1 b s t2 len d p t3 by (intro exI [of _ b]) (simp only: simp_thms)
qed

end
